theory Spec2Isabelle
  imports Main "HOL-Library.Sublist"
begin

section \<open>Python strings\<close>

text \<open>
  Text is a list of characters. The operations of Python's \<open>str\<close> that
  \<open>vantage/task.py\<close> uses are written out: the substring test \<open>needle in s\<close>,
  \<open>s.replace(old, new)\<close>, \<open>s.split(sep, maxsplit)\<close>, \<open>s.splitlines()\<close> and the
  decimal rendering of an index in an f-string.
\<close>

fun contains :: "string \<Rightarrow> string \<Rightarrow> bool" where
  "contains needle [] = (needle = [])"
| "contains needle (c # cs) = (prefix needle (c # cs) \<or> contains needle cs)"

text \<open>
  \<open>s.replace(old, new)\<close> replaces the occurrences of \<open>old\<close> found in one scan from
  the left; the scan continues after each occurrence, in the original text, and never
  looks into the text it has just inserted. For an empty \<open>old\<close> Python inserts
  \<open>new\<close> before every character and at the end.
\<close>

fun str_replace :: "string \<Rightarrow> string \<Rightarrow> string \<Rightarrow> string" where
  "str_replace [] new s = new @ concat (map (\<lambda>c. c # new) s)"
| "str_replace (a # as) new [] = []"
| "str_replace (a # as) new (c # cs) =
     (if prefix (a # as) (c # cs) then new @ str_replace (a # as) new (drop (length as) cs)
      else c # str_replace (a # as) new cs)"

text \<open>
  \<open>split_first sep s\<close> cuts \<open>s\<close> at the leftmost occurrence of \<open>sep\<close>;
  \<open>str_split sep n s\<close> is \<open>s.split(sep, n)\<close> for a non-empty separator.
\<close>

fun split_first :: "string \<Rightarrow> string \<Rightarrow> (string \<times> string) option" where
  "split_first sep [] = (if sep = [] then Some ([], []) else None)"
| "split_first sep (c # cs) =
     (if prefix sep (c # cs) then Some ([], drop (length sep) (c # cs))
      else map_option (\<lambda>(b, a). (c # b, a)) (split_first sep cs))"

fun str_split :: "string \<Rightarrow> nat \<Rightarrow> string \<Rightarrow> string list" where
  "str_split sep 0 s = [s]"
| "str_split sep (Suc n) s =
     (case split_first sep s of None \<Rightarrow> [s] | Some (b, a) \<Rightarrow> b # str_split sep n a)"

text \<open>
  The line boundaries of \<open>str.splitlines\<close> among the characters below 256: line feed,
  carriage return (with a following line feed as one boundary), vertical tab, form feed,
  the three separators \<open>0x1C\<close> to \<open>0x1E\<close> and next line \<open>0x85\<close>. The first list
  element of the result for the rest of the text is the remainder of the current line.
\<close>

definition is_linebreak :: "char \<Rightarrow> bool" where
  "is_linebreak c =
     (c = CHR 0x0A \<or> c = CHR 0x0D \<or> c = CHR 0x0B \<or> c = CHR 0x0C \<or>
      c = CHR 0x1C \<or> c = CHR 0x1D \<or> c = CHR 0x1E \<or> c = CHR 0x85)"

fun splitlines :: "string \<Rightarrow> string list" where
  "splitlines [] = []"
| "splitlines [c] = (if is_linebreak c then [[]] else [[c]])"
| "splitlines (c # d # cs) =
     (if c = CHR 0x0D \<and> d = CHR 0x0A then [] # splitlines cs
      else if is_linebreak c then [] # splitlines (d # cs)
      else (case splitlines (d # cs) of [] \<Rightarrow> [[c]] | l # ls \<Rightarrow> (c # l) # ls))"

fun str_of_nat :: "nat \<Rightarrow> string" where
  "str_of_nat n =
     (if n < 10 then [''0123456789'' ! n]
      else str_of_nat (n div 10) @ [''0123456789'' ! (n mod 10)])"

declare str_of_nat.simps [simp del]

section \<open>Values of the metadata document and Python dictionaries\<close>

text \<open>
  \<open>yaml.load\<close> returns untyped data, and the code inspects it with \<open>isinstance\<close>,
  truth tests and \<open>is None\<close>. A value is therefore one datatype; \<open>YNull\<close> is
  Python's \<open>None\<close>. A dictionary is an association list in insertion order with
  string keys; Python keeps its keys distinct.
\<close>

datatype yval =
    YNull
  | YBool bool
  | YInt int
  | YStr string
  | YList "yval list"
  | YDict "(string \<times> yval) list"

type_synonym dict = "(string \<times> yval) list"

text \<open>\<open>bool(v)\<close> and the truth test of \<open>if v:\<close>.\<close>

fun truthy :: "yval \<Rightarrow> bool" where
  "truthy YNull = False"
| "truthy (YBool b) = b"
| "truthy (YInt i) = (i \<noteq> 0)"
| "truthy (YStr s) = (s \<noteq> [])"
| "truthy (YList l) = (l \<noteq> [])"
| "truthy (YDict d) = (d \<noteq> [])"

text \<open>\<open>d.get(k)\<close> is \<open>None\<close> for a missing key; \<open>d.get(k, default)\<close> is the default.\<close>

definition dict_get_default :: "('k \<times> 'v) list \<Rightarrow> 'k \<Rightarrow> 'v \<Rightarrow> 'v" where
  "dict_get_default d k dflt = (case map_of d k of None \<Rightarrow> dflt | Some v \<Rightarrow> v)"

definition dict_get :: "dict \<Rightarrow> string \<Rightarrow> yval" where
  "dict_get d k = dict_get_default d k YNull"

text \<open>
  \<open>d[k] = v\<close> keeps the position of a key that is present and appends a new key;
  \<open>d.update(other)\<close> stores the entries of \<open>other\<close> in its iteration order;
  \<open>d.pop(k)\<close> removes the key.
\<close>

fun dict_set :: "('k \<times> 'v) list \<Rightarrow> 'k \<Rightarrow> 'v \<Rightarrow> ('k \<times> 'v) list" where
  "dict_set [] k v = [(k, v)]"
| "dict_set ((k', v') # d) k v = (if k' = k then (k, v) # d else (k', v') # dict_set d k v)"

definition dict_update :: "('k \<times> 'v) list \<Rightarrow> ('k \<times> 'v) list \<Rightarrow> ('k \<times> 'v) list" where
  "dict_update d other = fold (\<lambda>(k, v) acc. dict_set acc k v) other d"

definition dict_remove :: "('k \<times> 'v) list \<Rightarrow> 'k \<Rightarrow> ('k \<times> 'v) list" where
  "dict_remove d k = filter (\<lambda>kv. fst kv \<noteq> k) d"

definition keys :: "('k \<times> 'v) list \<Rightarrow> 'k list" where
  "keys d = map fst d"

section \<open>Exceptions\<close>

text \<open>
  A Python exception is a value: a function that can raise returns \<open>error + 'a\<close>, with
  \<open>Inl\<close> the exception. \<open>SystemExit c\<close> is what \<open>sys.exit(c)\<close> raises: it ends the
  process with exit code \<open>c\<close> unless it is caught, and nothing in the file catches it.
\<close>

datatype error =
    KeyError string
  | TypeError
  | AttributeError
  | ValueError
  | OSError
  | NotImplementedError
  | YAMLError
  | UsageError
  | CommandNotFound string
  | SystemExit int

section \<open>The run-required flag\<close>

text \<open>\<open>get_flag(env, yml, default)\<close>, lines 142 to 147.\<close>

definition get_flag :: "yval \<Rightarrow> yval \<Rightarrow> yval \<Rightarrow> yval" where
  "get_flag env yml dflt = (if env = YNull then (if yml = YNull then dflt else yml) else env)"

text \<open>
  The call of lines 19 to 23: the first argument is \<open>bool(env.get("VG_RUN_REQUIRED"))\<close>,
  a boolean, never \<open>None\<close>.
\<close>

definition run_required_flag :: "dict \<Rightarrow> dict \<Rightarrow> yval" where
  "run_required_flag env m =
     get_flag (YBool (truthy (dict_get env ''VG_RUN_REQUIRED'')))
       (dict_get m ''run-required'') (YBool False)"

section \<open>Placeholder substitution\<close>

text \<open>
  \<open>needle in x\<close> and \<open>x.replace(needle, v)\<close> on untyped values. The test is a substring
  test on a string, a membership test on a list or on the keys of a dictionary, and a
  \<open>TypeError\<close> on the other values; only strings have \<open>replace\<close>, and it takes a
  string.
\<close>

fun py_in :: "string \<Rightarrow> yval \<Rightarrow> error + bool" where
  "py_in needle (YStr s) = Inr (contains needle s)"
| "py_in needle (YList l) = Inr (YStr needle \<in> set l)"
| "py_in needle (YDict d) = Inr (needle \<in> set (keys d))"
| "py_in needle YNull = Inl TypeError"
| "py_in needle (YBool b) = Inl TypeError"
| "py_in needle (YInt i) = Inl TypeError"

fun py_replace :: "yval \<Rightarrow> string \<Rightarrow> yval \<Rightarrow> error + yval" where
  "py_replace (YStr s) needle (YStr v) = Inr (YStr (str_replace needle v s))"
| "py_replace (YStr s) needle v = Inl TypeError"
| "py_replace x needle v = Inl AttributeError"

text \<open>One round of either loop of \<open>insert_env_vals\<close> (lines 92 to 94 and 96 to 98).\<close>

definition subst_step :: "string \<Rightarrow> yval \<Rightarrow> yval \<Rightarrow> error + yval" where
  "subst_step needle v str =
     (case py_in needle str of
        Inl e \<Rightarrow> Inl e
      | Inr found \<Rightarrow> if found then py_replace str needle v else Inr str)"

fun insert_env :: "dict \<Rightarrow> yval \<Rightarrow> error + yval" where
  "insert_env [] str = Inr str"
| "insert_env ((k, v) # env) str =
     (case subst_step (CHR ''$'' # k) v str of
        Inl e \<Rightarrow> Inl e
      | Inr str' \<Rightarrow> insert_env env str')"

fun insert_args :: "nat \<Rightarrow> string list \<Rightarrow> yval \<Rightarrow> error + yval" where
  "insert_args i [] str = Inr str"
| "insert_args i (v # args) str =
     (case subst_step (CHR ''$'' # str_of_nat i) (YStr v) str of
        Inl e \<Rightarrow> Inl e
      | Inr str' \<Rightarrow> insert_args (Suc i) args str')"

definition insert_env_vals :: "yval \<Rightarrow> dict \<Rightarrow> string list \<Rightarrow> error + yval" where
  "insert_env_vals str env args =
     (case insert_env env str of
        Inl e \<Rightarrow> Inl e
      | Inr str' \<Rightarrow> insert_args 0 args str')"

section \<open>Flattening the options of a structured image\<close>

text \<open>
  Lines 50 to 61, for the entries of the image mapping that remain after \<open>tag\<close> was
  popped. An argument of the invocation is a value: \<open>insert_env_vals\<close> returns its
  input as it is when both loops are empty.
\<close>

fun flatten_list :: "string \<Rightarrow> yval list \<Rightarrow> dict \<Rightarrow> string list \<Rightarrow> error + yval list" where
  "flatten_list k [] env args = Inr []"
| "flatten_list k (x # xs) env args =
     (case insert_env_vals x env args of
        Inl e \<Rightarrow> Inl e
      | Inr x' \<Rightarrow>
         (case flatten_list k xs env args of
            Inl e \<Rightarrow> Inl e
          | Inr r \<Rightarrow> Inr (YStr (''--'' @ k) # x' # r)))"

fun flatten_option :: "string \<Rightarrow> yval \<Rightarrow> dict \<Rightarrow> string list \<Rightarrow> error + yval list" where
  "flatten_option k (YList xs) env args = flatten_list k xs env args"
| "flatten_option k (YBool b) env args = Inr (if b then [YStr (''--'' @ k)] else [])"
| "flatten_option k v env args =
     (case insert_env_vals v env args of
        Inl e \<Rightarrow> Inl e
      | Inr v' \<Rightarrow> Inr [YStr (''--'' @ k), v'])"

fun flatten_image :: "dict \<Rightarrow> dict \<Rightarrow> string list \<Rightarrow> error + yval list" where
  "flatten_image [] env args = Inr []"
| "flatten_image ((k, v) # img) env args =
     (case flatten_option k v env args of
        Inl e \<Rightarrow> Inl e
      | Inr out \<Rightarrow>
         (case flatten_image img env args of
            Inl e \<Rightarrow> Inl e
          | Inr r \<Rightarrow> Inr (out @ r)))"

section \<open>The world outside the program\<close>

text \<open>
  The file system (through \<open>pathlib\<close> and \<open>os\<close>), the YAML parser, the lookup of a
  program by \<open>sh.Command\<close> and the processes it spawns are not part of the program:
  they are the fields of a \<open>world\<close>, and every theorem holds for every world. A path
  is the string \<open>str(path)\<close>. Task files do not change while the program runs.
\<close>

record invocation =
  inv_cmd :: string
  inv_args :: "yval list"
  inv_tty_in :: bool
  inv_env :: dict
  inv_cwd :: yval

text \<open>
  The reasons for which \<open>Path.glob\<close> raises: the pattern is not relative
  (\<open>NotImplementedError\<close>), \<open>pathlib\<close> refuses the pattern (\<open>ValueError\<close>), or a
  directory cannot be listed (\<open>OSError\<close>).
\<close>

datatype glob_failure = NotRelative | BadPattern | Unreadable

definition glob_error :: "glob_failure \<Rightarrow> error" where
  "glob_error f =
     (case f of NotRelative \<Rightarrow> NotImplementedError | BadPattern \<Rightarrow> ValueError
      | Unreadable \<Rightarrow> OSError)"

record world =
  joinpath :: "string \<Rightarrow> string \<Rightarrow> string"
  stem :: "string \<Rightarrow> string"
  is_file :: "string \<Rightarrow> bool option"
  access_x :: "string \<Rightarrow> bool"
  is_dir :: "string \<Rightarrow> bool option"
  glob :: "string \<Rightarrow> string \<Rightarrow> string list \<times> glob_failure option"
  iterdir :: "string \<Rightarrow> string list option"
  read_text :: "string \<Rightarrow> string option"
  yaml_load :: "string \<Rightarrow> yval option"
  which :: "string \<Rightarrow> bool"
  exit_code :: "(invocation \<times> int) list \<Rightarrow> invocation \<Rightarrow> int"
  environ_PATH :: string

text \<open>
  \<open>joinpath w d n\<close> is \<open>d / n\<close>. \<open>is_file w p\<close> and \<open>is_dir w p\<close> are
  \<open>p.is_file()\<close> and \<open>p.is_dir()\<close>: they answer, or they raise \<open>OSError\<close>
  (\<open>None\<close>), which \<open>pathlib\<close> does when the path cannot be examined for another
  reason than that it is missing, such as a name that is too long or a directory that
  may not be searched. \<open>access_x w p\<close> is \<open>os.access(p, os.X_OK)\<close>. \<open>glob w d pat\<close>
  is what iterating over \<open>d.glob(pat)\<close> gives: the paths it yields, in order, and the
  reason for which it raises after them, if it does. \<open>iterdir w d\<close> lists
  \<open>d.iterdir()\<close> in its iteration order (\<open>None\<close>: the directory cannot be read);
  \<open>read_text w p\<close> is the text of the file (\<open>None\<close>: it
  cannot be opened); \<open>yaml_load w s\<close> is the value of the document \<open>s\<close> (\<open>None\<close>:
  the parser raises \<open>YAMLError\<close>); \<open>which w c\<close> says whether \<open>sh.Command(c)\<close>
  finds a program; \<open>exit_code w before i\<close> is the exit code of the process spawned for \<open>i\<close> after the
  processes \<open>before\<close>; \<open>environ_PATH w\<close> is \<open>os.environ.get("PATH", "")\<close>.
\<close>

text \<open>
  \<open>is_executable(path)\<close>, lines 150 and 151: \<open>os.access\<close> is asked only about a
  regular file.
\<close>

definition is_executable :: "world \<Rightarrow> string \<Rightarrow> error + bool" where
  "is_executable w path =
     (case is_file w path of
        None \<Rightarrow> Inl OSError
      | Some f \<Rightarrow> Inr (f \<and> access_x w path))"

section \<open>The state of the process\<close>

text \<open>
  The code mutates objects that it shares: the dictionary \<open>ctx.obj\<close>, and the
  metadata objects that \<open>lru_cache\<close> keeps and hands out again. The state holds
  \<open>ctx.obj\<close>, a store of the metadata objects (an address is an index of
  \<open>metas\<close>), the three caches, and the log of the processes spawned so far, each
  with the exit code it ended with. The nested mappings of one metadata object are
  distinct objects (YAML aliases are not modelled).
\<close>

datatype task =
    Command string string yval
  | Group string "(string \<times> task) list"

record state =
  ctx_obj :: dict
  metas :: "yval list"
  load_meta_cache :: "(string \<times> nat) list"
  as_command_cache :: "(string \<times> task) list"
  as_group_cache :: "((string \<times> bool) \<times> task) list"
  spawned :: "(invocation \<times> int) list"

definition task_name :: "task \<Rightarrow> string" where
  "task_name t = (case t of Command n p h \<Rightarrow> n | Group n cs \<Rightarrow> n)"

text \<open>
  \<open>functools.lru_cache()\<close> keeps 128 entries, the most recently used first. A hit
  moves the entry to the front; a miss stores the result at the front and drops the
  oldest entry of a full cache, unless the key was stored while the result was computed.
  A call that raises stores nothing.
\<close>

definition lru_hit :: "'k \<Rightarrow> ('k \<times> 'v) list \<Rightarrow> ('k \<times> 'v) list" where
  "lru_hit k c =
     (case map_of c k of
        None \<Rightarrow> c
      | Some v \<Rightarrow> (k, v) # filter (\<lambda>e. fst e \<noteq> k) c)"

definition lru_store :: "'k \<Rightarrow> 'v \<Rightarrow> ('k \<times> 'v) list \<Rightarrow> ('k \<times> 'v) list" where
  "lru_store k v c = (if map_of c k \<noteq> None then c else take 128 ((k, v) # c))"

definition meta_at :: "state \<Rightarrow> nat \<Rightarrow> yval" where
  "meta_at st a = (if a < length (metas st) then metas st ! a else YNull)"

section \<open>Metadata parsing\<close>

text \<open>
  The body of \<open>load_meta\<close> on the text of the file, lines 107 to 120. Unpacking the
  result of \<open>split\<close> into three names raises \<open>ValueError\<close> unless it has three parts.
\<close>

definition parse_meta :: "world \<Rightarrow> string \<Rightarrow> error + yval" where
  "parse_meta w content =
     (case find (contains ''---'') (splitlines content) of
        None \<Rightarrow> Inr (YDict [])
      | Some sep \<Rightarrow>
         (case str_split sep 2 content of
            [before, meta, script] \<Rightarrow>
              (case yaml_load w
                      (str_replace (CHR 0x0A # str_replace ''---'' [] sep) [CHR 0x0A] meta) of
                 None \<Rightarrow> Inl YAMLError
               | Some v \<Rightarrow> Inr v)
          | _ \<Rightarrow> Inl ValueError))"

text \<open>
  \<open>load_meta\<close> behind its cache: a hit returns the object stored for the path; a miss
  reads and parses the file, allocates the result as a new object and stores its address.
\<close>

definition load_meta :: "world \<Rightarrow> string \<Rightarrow> state \<Rightarrow> (error + nat) \<times> state" where
  "load_meta w path st =
     (case map_of (load_meta_cache st) path of
        Some a \<Rightarrow> (Inr a, st\<lparr>load_meta_cache := lru_hit path (load_meta_cache st)\<rparr>)
      | None \<Rightarrow>
         (case read_text w path of
            None \<Rightarrow> (Inl OSError, st)
          | Some content \<Rightarrow>
             (case parse_meta w content of
                Inl e \<Rightarrow> (Inl e, st)
              | Inr m \<Rightarrow>
                 (Inr (length (metas st)),
                  st\<lparr>metas := metas st @ [m],
                     load_meta_cache :=
                       lru_store path (length (metas st)) (load_meta_cache st)\<rparr>))))"

section \<open>Environment composition\<close>

text \<open>
  The local variable \<open>env\<close> of \<open>task_cmd\<close> refers either to \<open>ctx.obj\<close> or, after
  line 138, to the \<open>defaults\<close> mapping of a metadata object.
\<close>

datatype env_ref = CtxObj | DefaultsOf nat

definition read_env :: "state \<Rightarrow> env_ref \<Rightarrow> dict" where
  "read_env st r =
     (case r of
        CtxObj \<Rightarrow> ctx_obj st
      | DefaultsOf a \<Rightarrow>
         (case meta_at st a of
            YDict m \<Rightarrow> (case dict_get m ''defaults'' of YDict d \<Rightarrow> d | _ \<Rightarrow> [])
          | _ \<Rightarrow> []))"

definition write_env :: "state \<Rightarrow> env_ref \<Rightarrow> dict \<Rightarrow> state" where
  "write_env st r d =
     (case r of
        CtxObj \<Rightarrow> st\<lparr>ctx_obj := d\<rparr>
      | DefaultsOf a \<Rightarrow>
         (case meta_at st a of
            YDict m \<Rightarrow> st\<lparr>metas := (metas st)[a := YDict (dict_set m ''defaults'' (YDict d))]\<rparr>
          | _ \<Rightarrow> st))"

text \<open>
  \<open>env.update(overrides)\<close> for a value that is not \<open>None\<close>. A mapping is merged; an
  empty string or list is an empty update; a number has no items to iterate; a character
  of a string is not a pair. A non-empty list is reported as \<open>ValueError\<close>: Python would
  accept a list of pairs, which the model does not follow.
\<close>

fun update_from :: "dict \<Rightarrow> yval \<Rightarrow> error + dict" where
  "update_from env (YDict other) = Inr (dict_update env other)"
| "update_from env (YStr s) = (if s = [] then Inr env else Inl ValueError)"
| "update_from env (YList l) = (if l = [] then Inr env else Inl ValueError)"
| "update_from env v = Inl TypeError"

text \<open>
  \<open>update_env(meta, env)\<close>, lines 123 to 139; \<open>a\<close> is the address of \<open>meta\<close>. Both
  branches read \<open>env["VG_VERBOSE"]\<close> first; when it is true the log loop calls
  \<open>items()\<close>, which only a mapping has.
\<close>

definition update_env :: "nat \<Rightarrow> env_ref \<Rightarrow> state \<Rightarrow> (error + env_ref) \<times> state" where
  "update_env a r st =
     (case meta_at st a of
        YDict m \<Rightarrow>
         (case
            (if dict_get m ''overrides'' \<noteq> YNull then
               (case map_of (read_env st r) ''VG_VERBOSE'' of
                  None \<Rightarrow> Inl (KeyError ''VG_VERBOSE'')
                | Some verbose \<Rightarrow>
                   (case dict_get m ''overrides'' of
                      YDict other \<Rightarrow> Inr (write_env st r (dict_update (read_env st r) other))
                    | v \<Rightarrow>
                       if truthy verbose then Inl AttributeError
                       else (case update_from (read_env st r) v of
                               Inl e \<Rightarrow> Inl e
                             | Inr d \<Rightarrow> Inr (write_env st r d))))
             else Inr st)
          of
            Inl e \<Rightarrow> (Inl e, st)
          | Inr st1 \<Rightarrow>
             (if dict_get m ''defaults'' \<noteq> YNull then
                (case map_of (read_env st1 r) ''VG_VERBOSE'' of
                   None \<Rightarrow> (Inl (KeyError ''VG_VERBOSE''), st1)
                 | Some verbose \<Rightarrow>
                    (case dict_get m ''defaults'' of
                       YDict d \<Rightarrow>
                         (Inr (DefaultsOf a),
                          write_env st1 (DefaultsOf a) (dict_update d (read_env st1 r)))
                     | v \<Rightarrow> (Inl AttributeError, st1)))
              else (Inr r, st1)))
      | v \<Rightarrow> (Inl AttributeError, st))"

section \<open>The task locator\<close>

text \<open>\<open>Path(v)\<close> of a value: only a string is a path.\<close>

definition as_path :: "yval \<Rightarrow> error + string" where
  "as_path v = (case v of YStr s \<Rightarrow> Inr s | _ \<Rightarrow> Inl TypeError)"

text \<open>\<open>get_task_dir\<close> and \<open>get_plugins_dir\<close>, lines 232 to 241.\<close>

definition root_dir :: "world \<Rightarrow> dict \<Rightarrow> string \<Rightarrow> string \<Rightarrow> error + string" where
  "root_dir w env var sub =
     (if truthy (dict_get env var) then as_path (dict_get env var)
      else (case map_of env ''VG_APP_DIR'' of
              None \<Rightarrow> Inl (KeyError ''VG_APP_DIR'')
            | Some v \<Rightarrow>
               (case as_path v of
                  Inl e \<Rightarrow> Inl e
                | Inr p \<Rightarrow> Inr (joinpath w p sub))))"

definition get_task_dir :: "world \<Rightarrow> dict \<Rightarrow> error + string" where
  "get_task_dir w env = root_dir w env ''VG_TASKS_DIR'' ''tasks''"

definition get_plugins_dir :: "world \<Rightarrow> dict \<Rightarrow> error + string" where
  "get_plugins_dir w env = root_dir w env ''VG_PLUGINS_DIR'' ''.vg-plugins''"

text \<open>
  \<open>as_command(path)\<close>, lines 189 to 203, behind its cache. The command keeps the stem
  of the path as its name, the path that its callback is bound to, and the help text.
\<close>

definition as_command :: "world \<Rightarrow> string \<Rightarrow> state \<Rightarrow> (error + task) \<times> state" where
  "as_command w path st =
     (case map_of (as_command_cache st) path of
        Some t \<Rightarrow> (Inr t, st\<lparr>as_command_cache := lru_hit path (as_command_cache st)\<rparr>)
      | None \<Rightarrow>
         (case load_meta w path st of
            (Inl e, st1) \<Rightarrow> (Inl e, st1)
          | (Inr a, st1) \<Rightarrow>
             (case meta_at st1 a of
                YDict m \<Rightarrow>
                  (Inr (Command (stem w path) path (dict_get m ''help-text'')),
                   st1\<lparr>as_command_cache :=
                         lru_store path (Command (stem w path) path (dict_get m ''help-text''))
                           (as_command_cache st1)\<rparr>)
              | v \<Rightarrow> (Inl AttributeError, st1))))"

text \<open>
  \<open>as_group(path, walk)\<close>, lines 206 to 217. The cache key holds \<open>walk\<close>. A walk
  registers the entries of the directory, each under its name, a later one replacing an
  earlier one of the same name.
\<close>

definition as_group_nowalk :: "world \<Rightarrow> string \<Rightarrow> state \<Rightarrow> task \<times> state" where
  "as_group_nowalk w path st =
     (case map_of (as_group_cache st) (path, False) of
        Some t \<Rightarrow> (t, st\<lparr>as_group_cache := lru_hit (path, False) (as_group_cache st)\<rparr>)
      | None \<Rightarrow>
         (Group (stem w path) [],
          st\<lparr>as_group_cache :=
               lru_store (path, False) (Group (stem w path) []) (as_group_cache st)\<rparr>))"

fun add_commands ::
  "world \<Rightarrow> string list \<Rightarrow> (string \<times> task) list \<Rightarrow> state
     \<Rightarrow> (error + (string \<times> task) list) \<times> state" where
  "add_commands w [] cmds st = (Inr cmds, st)"
| "add_commands w (p # ps) cmds st =
     (case is_dir w p of
        None \<Rightarrow> (Inl OSError, st)
      | Some d \<Rightarrow>
         (if d then
            (case as_group_nowalk w p st of
               (t, st1) \<Rightarrow> add_commands w ps (dict_set cmds (task_name t) t) st1)
          else
            (case is_executable w p of
               Inl e \<Rightarrow> (Inl e, st)
             | Inr x \<Rightarrow>
                (if x then
                   (case as_command w p st of
                      (Inl e, st1) \<Rightarrow> (Inl e, st1)
                    | (Inr t, st1) \<Rightarrow> add_commands w ps (dict_set cmds (task_name t) t) st1)
                 else add_commands w ps cmds st))))"

definition as_group :: "world \<Rightarrow> string \<Rightarrow> state \<Rightarrow> (error + task) \<times> state" where
  "as_group w path st =
     (case map_of (as_group_cache st) (path, True) of
        Some t \<Rightarrow> (Inr t, st\<lparr>as_group_cache := lru_hit (path, True) (as_group_cache st)\<rparr>)
      | None \<Rightarrow>
         (case iterdir w path of
            None \<Rightarrow> (Inl OSError, st)
          | Some entries \<Rightarrow>
             (case add_commands w entries [] st of
                (Inl e, st1) \<Rightarrow> (Inl e, st1)
              | (Inr cmds, st1) \<Rightarrow>
                 (Inr (Group (stem w path) cmds),
                  st1\<lparr>as_group_cache :=
                        lru_store (path, True) (Group (stem w path) cmds)
                          (as_group_cache st1)\<rparr>))))"

text \<open>
  The test of the loop of lines 173 to 176 on the paths that the glob yields: the first
  path that is executable, if no test before it raises.
\<close>

fun first_executable :: "world \<Rightarrow> string list \<Rightarrow> error + string option" where
  "first_executable w [] = Inr None"
| "first_executable w (p # ps) =
     (case is_executable w p of
        Inl e \<Rightarrow> Inl e
      | Inr x \<Rightarrow> if x then Inr (Some p) else first_executable w ps)"

text \<open>
  \<open>get_task_from_dir(dir_, name)\<close>, lines 166 to 186. The \<open>for\<close> loop of line 173
  binds \<open>task_path\<close> again: after a loop that found no executable file, \<open>task_path\<close> is
  the last path the glob yielded, and \<open>dir_ / name\<close> only when it yielded none. A glob
  that raises does so when the loop asks for the next path, after the paths it yielded
  were tested. The
  function calls itself on a path that the world decides, so it takes fuel: the first
  argument bounds the depth of the calls, and \<open>None\<close> says that it was used up. A
  result \<open>Inr None\<close> is Python's \<open>None\<close>, the value of a function that ends without
  \<open>return\<close>. Commands and groups are true in a truth test.
\<close>

fun get_task_from_dir ::
  "nat \<Rightarrow> world \<Rightarrow> string \<Rightarrow> string \<Rightarrow> state \<Rightarrow> ((error + task option) \<times> state) option" where
  "get_task_from_dir 0 w dir name st = None"
| "get_task_from_dir (Suc n) w dir name st =
     (case is_executable w (joinpath w dir name) of
        Inl e \<Rightarrow> Some (Inl e, st)
      | Inr x \<Rightarrow>
         (if x then
            (case as_command w (joinpath w dir name) st of
               (Inl e, st1) \<Rightarrow> Some (Inl e, st1)
             | (Inr t, st1) \<Rightarrow> Some (Inr (Some t), st1))
          else
            (case first_executable w (fst (glob w dir (name @ ''.*''))) of
               Inl e \<Rightarrow> Some (Inl e, st)
             | Inr (Some p) \<Rightarrow>
                (case as_command w p st of
                   (Inl e, st1) \<Rightarrow> Some (Inl e, st1)
                 | (Inr t, st1) \<Rightarrow> Some (Inr (Some t), st1))
             | Inr None \<Rightarrow>
                (case snd (glob w dir (name @ ''.*'')) of
                   Some f \<Rightarrow> Some (Inl (glob_error f), st)
                 | None \<Rightarrow>
                    (case is_dir w
                            (if fst (glob w dir (name @ ''.*'')) = [] then joinpath w dir name
                             else last (fst (glob w dir (name @ ''.*'')))) of
                       None \<Rightarrow> Some (Inl OSError, st)
                     | Some d \<Rightarrow>
                        (if d then
                           (case get_task_from_dir n w
                                   (if fst (glob w dir (name @ ''.*'')) = []
                                    then joinpath w dir name
                                    else last (fst (glob w dir (name @ ''.*'')))) name st of
                              None \<Rightarrow> None
                            | Some (Inl e, st1) \<Rightarrow> Some (Inl e, st1)
                            | Some (Inr (Some t), st1) \<Rightarrow> Some (Inr (Some t), st1)
                            | Some (Inr None, st1) \<Rightarrow>
                               (case as_group w
                                       (if fst (glob w dir (name @ ''.*'')) = []
                                        then joinpath w dir name
                                        else last (fst (glob w dir (name @ ''.*'')))) st1 of
                                  (Inl e, st2) \<Rightarrow> Some (Inl e, st2)
                                | (Inr t, st2) \<Rightarrow> Some (Inr (Some t), st2)))
                         else Some (Inr None, st)))))))"

text \<open>
  \<open>get_task(env, name)\<close>, lines 154 to 163: both roots are computed first, then each
  root that is a directory is searched. The name comes from the metadata, and only a
  string can be joined to a path.
\<close>

definition search_root ::
  "nat \<Rightarrow> world \<Rightarrow> string \<Rightarrow> yval \<Rightarrow> state \<Rightarrow> ((error + task option) \<times> state) option" where
  "search_root n w dir name st =
     (case is_dir w dir of
        None \<Rightarrow> Some (Inl OSError, st)
      | Some d \<Rightarrow>
         (if d then
            (case name of
               YStr s \<Rightarrow> get_task_from_dir n w dir s st
             | _ \<Rightarrow> Some (Inl TypeError, st))
          else Some (Inr None, st)))"

definition get_task ::
  "nat \<Rightarrow> world \<Rightarrow> dict \<Rightarrow> yval \<Rightarrow> state \<Rightarrow> ((error + task option) \<times> state) option" where
  "get_task n w env name st =
     (case get_task_dir w env of
        Inl e \<Rightarrow> Some (Inl e, st)
      | Inr task_dir \<Rightarrow>
         (case get_plugins_dir w env of
            Inl e \<Rightarrow> Some (Inl e, st)
          | Inr plugins_dir \<Rightarrow>
             (case search_root n w task_dir name st of
                None \<Rightarrow> None
              | Some (Inl e, st1) \<Rightarrow> Some (Inl e, st1)
              | Some (Inr (Some t), st1) \<Rightarrow> Some (Inr (Some t), st1)
              | Some (Inr None, st1) \<Rightarrow> search_root n w plugins_dir name st1)))"

section \<open>Building and running the invocation\<close>

text \<open>One \<open>--env K\<close> pair for every key of the environment, lines 65 and 66.\<close>

definition env_flags :: "dict \<Rightarrow> yval list" where
  "env_flags env = concat (map (\<lambda>k. [YStr ''--env'', YStr k]) (keys env))"

text \<open>The arguments every container invocation starts with, lines 38 to 46.\<close>

definition base_run_args :: "string \<Rightarrow> yval list" where
  "base_run_args path =
     [YStr ''run'', YStr ''--volume'', YStr (path @ '':/vg-task''),
      YStr ''--label'', YStr ''vantage'', YStr ''--label'', YStr ''vantage-task'']"

text \<open>
  Lines 32 to 72: the command, its arguments and the \<open>tty_in\<close> flag. \<open>a\<close> is the
  address of \<open>meta\<close> and \<open>r\<close> what \<open>env\<close> refers to. \<open>image.pop("tag")\<close> changes the
  image mapping of the metadata object in the store, and stays when a later line raises;
  without an image, line 71 stores \<open>PATH\<close> in the object that \<open>env\<close> refers to.
\<close>

definition pop_tag :: "nat \<Rightarrow> dict \<Rightarrow> dict \<Rightarrow> state \<Rightarrow> state" where
  "pop_tag a m img st =
     st\<lparr>metas := (metas st)[a := YDict (dict_set m ''image'' (YDict (dict_remove img ''tag'')))]\<rparr>"

definition build_invocation ::
  "world \<Rightarrow> string \<Rightarrow> nat \<Rightarrow> env_ref \<Rightarrow> string list \<Rightarrow> state
     \<Rightarrow> (error + string \<times> yval list \<times> bool) \<times> state" where
  "build_invocation w path a r args st =
     (case meta_at st a of
        YDict m \<Rightarrow>
         (if truthy (dict_get m ''image'') then
            (if \<not> which w ''docker'' then (Inl (CommandNotFound ''docker''), st)
             else
               (case dict_get m ''image'' of
                  YDict img \<Rightarrow>
                   (case map_of img ''tag'' of
                      None \<Rightarrow> (Inl (KeyError ''tag''), st)
                    | Some tagv \<Rightarrow>
                       (case insert_env_vals tagv (read_env (pop_tag a m img st) r) args of
                          Inl e \<Rightarrow> (Inl e, pop_tag a m img st)
                        | Inr tag \<Rightarrow>
                           (case flatten_image (dict_remove img ''tag'')
                                   (read_env (pop_tag a m img st) r) args of
                              Inl e \<Rightarrow> (Inl e, pop_tag a m img st)
                            | Inr opts \<Rightarrow>
                                (Inr (''docker'',
                                      base_run_args path @ opts @
                                      env_flags (read_env (pop_tag a m img st) r) @
                                      [tag, YStr ''/vg-task''] @ map YStr args,
                                      truthy (dict_get_default img ''tty'' (YBool False))),
                                 pop_tag a m img st))))
                | tag \<Rightarrow>
                   (Inr (''docker'',
                         base_run_args path @ [YStr ''--rm''] @ env_flags (read_env st r) @
                         [tag, YStr ''/vg-task''] @ map YStr args,
                         False),
                    st)))
          else
            (if which w path then
               (Inr (path, map YStr args, False),
                write_env st r (dict_set (read_env st r) ''PATH'' (YStr (environ_PATH w))))
             else
               (Inl (CommandNotFound path),
                write_env st r (dict_set (read_env st r) ''PATH'' (YStr (environ_PATH w))))))
      | v \<Rightarrow> (Inl AttributeError, st))"

text \<open>
  Lines 74 to 87: the call reads \<open>env["VG_APP_DIR"]\<close>, spawns the process once and
  waits for it. \<open>sh\<close> raises \<open>ErrorReturnCode\<close> for an exit code other than 0, and
  the handler passes that code to \<open>sys.exit\<close>. No other exception is caught.
\<close>

definition spawn :: "world \<Rightarrow> invocation \<Rightarrow> state \<Rightarrow> (error + unit) \<times> state" where
  "spawn w i st =
     (if exit_code w (spawned st) i = 0 then Inr ()
      else Inl (SystemExit (exit_code w (spawned st) i)),
      st\<lparr>spawned := spawned st @ [(i, exit_code w (spawned st) i)]\<rparr>)"

definition run_task ::
  "world \<Rightarrow> string \<Rightarrow> nat \<Rightarrow> env_ref \<Rightarrow> string list \<Rightarrow> state \<Rightarrow> (error + unit) \<times> state" where
  "run_task w path a r args st =
     (case build_invocation w path a r args st of
        (Inl e, st1) \<Rightarrow> (Inl e, st1)
      | (Inr (cmd, argv, tty), st1) \<Rightarrow>
         (case map_of (read_env st1 r) ''VG_APP_DIR'' of
            None \<Rightarrow> (Inl (KeyError ''VG_APP_DIR''), st1)
          | Some cwd \<Rightarrow>
             spawn w \<lparr>inv_cmd = cmd, inv_args = argv, inv_tty_in = tty,
                      inv_env = read_env st1 r, inv_cwd = cwd\<rparr> st1))"

section \<open>The orchestrator\<close>

text \<open>The values a \<open>for\<close> loop takes from a value of the metadata.\<close>

fun iter_of :: "yval \<Rightarrow> error + yval list" where
  "iter_of (YList l) = Inr l"
| "iter_of (YStr s) = Inr (map (\<lambda>c. YStr [c]) s)"
| "iter_of (YDict d) = Inr (map YStr (keys d))"
| "iter_of v = Inl TypeError"

text \<open>
  \<open>task_cmd(ctx, path, args)\<close>, lines 14 to 87, and its loop over the required tasks,
  lines 26 to 30. \<open>t.invoke(ctx)\<close> has no meaning for \<open>None\<close>; a group asks for a
  subcommand that the context does not hold; a command calls its callback \<open>task_cmd\<close>,
  bound to the command's path, with the parameters of the context, which are the
  arguments of the task that is running, and with the same \<open>ctx.obj\<close>. A task may
  require itself, so \<open>task_cmd\<close> takes fuel: the first argument bounds the depth of the
  calls, and \<open>None\<close> says that it was used up.
\<close>

fun task_cmd ::
  "nat \<Rightarrow> world \<Rightarrow> string \<Rightarrow> string list \<Rightarrow> state \<Rightarrow> ((error + unit) \<times> state) option"
and run_requires ::
  "nat \<Rightarrow> world \<Rightarrow> env_ref \<Rightarrow> yval list \<Rightarrow> string list \<Rightarrow> state
     \<Rightarrow> ((error + unit) \<times> state) option" where
  "task_cmd 0 w path args st = None"
| "task_cmd (Suc n) w path args st =
     (case load_meta w path st of
        (Inl e, st1) \<Rightarrow> Some (Inl e, st1)
      | (Inr a, st1) \<Rightarrow>
         (case update_env a CtxObj st1 of
            (Inl e, st2) \<Rightarrow> Some (Inl e, st2)
          | (Inr env, st2) \<Rightarrow>
             (case meta_at st2 a of
                YDict m \<Rightarrow>
                 (case
                    (if truthy (run_required_flag (read_env st2 env) m) then
                       (case iter_of (dict_get_default m ''requires'' (YList [])) of
                          Inl e \<Rightarrow> Some (Inl e, st2)
                        | Inr required \<Rightarrow> run_requires n w env required args st2)
                     else Some (Inr (), st2))
                  of
                    None \<Rightarrow> None
                  | Some (Inl e, st3) \<Rightarrow> Some (Inl e, st3)
                  | Some (Inr u, st3) \<Rightarrow> Some (run_task w path a env args st3))
              | v \<Rightarrow> Some (Inl AttributeError, st2))))"
| "run_requires n w env [] args st = Some (Inr (), st)"
| "run_requires n w env (required # rest) args st =
     (case get_task n w (read_env st env) required st of
        None \<Rightarrow> None
      | Some (Inl e, st1) \<Rightarrow> Some (Inl e, st1)
      | Some (Inr None, st1) \<Rightarrow> Some (Inl AttributeError, st1)
      | Some (Inr (Some (Group name cmds)), st1) \<Rightarrow> Some (Inl UsageError, st1)
      | Some (Inr (Some (Command name p help)), st1) \<Rightarrow>
         (case task_cmd n w p args st1 of
            None \<Rightarrow> None
          | Some (Inl e, st2) \<Rightarrow> Some (Inl e, st2)
          | Some (Inr u, st2) \<Rightarrow> run_requires n w env rest args st2))"


section \<open>Values of the data model\<close>

text \<open>
  The data model types what the code leaves untyped: an environment maps names to
  strings, and an option of a structured image is a string, a boolean or a list of
  strings. \<open>option_yval\<close> is the value that the metadata holds for such an option.
\<close>

datatype image_option = OStr string | OBool bool | OList "string list"

fun option_yval :: "image_option \<Rightarrow> yval" where
  "option_yval (OStr s) = YStr s"
| "option_yval (OBool b) = YBool b"
| "option_yval (OList xs) = YList (map YStr xs)"

section \<open>Example inputs\<close>

text \<open>A state whose only metadata object has both \<open>overrides\<close> and \<open>defaults\<close>.\<close>

definition compose_state :: state where
  "compose_state =
     \<lparr>ctx_obj = [(''VG_VERBOSE'', YStr ''''), (''A'', YStr ''env'')],
      metas = [YDict [(''overrides'', YDict [(''A'', YStr ''over''), (''B'', YStr ''over'')]),
                      (''defaults'', YDict [(''B'', YStr ''dflt''), (''C'', YStr ''dflt'')])]],
      load_meta_cache = [], as_command_cache = [], as_group_cache = [], spawned = []\<rparr>"

text \<open>
  An application under \<open>/app\<close>. Its tasks directory holds the task files \<open>build\<close>
  (which requires \<open>setup\<close>), \<open>setup\<close>, \<open>fail\<close> (whose process exits with 3) and
  \<open>pack\<close> (which runs in a container), a directory \<open>foo\<close> with an executable \<open>foo\<close>
  in it, and beside it a file \<open>foo.txt\<close> that is not executable. There is no plugins
  directory. \<open>yaml_load\<close> knows the two metadata blocks of the task files.
\<close>

definition build_text :: string where
  "build_text =
     ''#---\<newline>#run-required: true\<newline>#requires: [setup]\<newline>#---\<newline>echo build\<newline>''"

definition pack_text :: string where
  "pack_text =
     ''#---\<newline>#image:\<newline>#  tag: repo/img-$0\<newline>#  rm: true\<newline>#  network: [a, b]\<newline>#---\<newline>exec pack\<newline>''"

definition demo_world :: world where
  "demo_world =
     \<lparr>joinpath = (\<lambda>d n. d @ ''/'' @ n),
      stem = (\<lambda>p. dict_get_default
                [(''/app/tasks/build'', ''build''), (''/app/tasks/setup'', ''setup''),
                 (''/app/tasks/fail'', ''fail''), (''/app/tasks/pack'', ''pack''),
                 (''/app/tasks/foo'', ''foo''), (''/app/tasks/foo/foo'', ''foo''),
                 (''/app/tasks/foo.txt'', ''foo'')] p p),
      is_file = (\<lambda>p. Some (p \<in> set [''/app/tasks/build'', ''/app/tasks/setup'', ''/app/tasks/fail'',
                               ''/app/tasks/pack'', ''/app/tasks/foo/foo'',
                               ''/app/tasks/foo.txt''])),
      access_x = (\<lambda>p. p \<noteq> ''/app/tasks/foo.txt''),
      is_dir = (\<lambda>p. Some (p \<in> set [''/app'', ''/app/tasks'', ''/app/tasks/foo''])),
      glob = (\<lambda>d pat. (if d = ''/app/tasks'' \<and> pat = ''foo.*''
                        then [''/app/tasks/foo.txt''] else [], None)),
      iterdir = (\<lambda>d. if d = ''/app/tasks/foo'' then Some [''/app/tasks/foo/foo''] else None),
      read_text = map_of
        [(''/app/tasks/build'', build_text), (''/app/tasks/setup'', ''echo setup\<newline>''),
         (''/app/tasks/fail'', ''exit 3\<newline>''), (''/app/tasks/pack'', pack_text),
         (''/app/tasks/foo/foo'', ''echo foo\<newline>'')],
      yaml_load = map_of
        [(''\<newline>run-required: true\<newline>requires: [setup]\<newline>'',
          YDict [(''run-required'', YBool True), (''requires'', YList [YStr ''setup''])]),
         (''\<newline>image:\<newline>  tag: repo/img-$0\<newline>  rm: true\<newline>  network: [a, b]\<newline>'',
          YDict [(''image'', YDict [(''tag'', YStr ''repo/img-$0''), (''rm'', YBool True),
                                    (''network'', YList [YStr ''a'', YStr ''b''])])])],
      which = (\<lambda>c. True),
      exit_code = (\<lambda>before i. if inv_cmd i = ''/app/tasks/fail'' then 3 else 0),
      environ_PATH = ''/usr/bin''\<rparr>"

definition demo_state :: state where
  "demo_state =
     \<lparr>ctx_obj = [(''VG_APP_DIR'', YStr ''/app''), (''VG_VERBOSE'', YStr '''')],
      metas = [], load_meta_cache = [], as_command_cache = [], as_group_cache = [],
      spawned = []\<rparr>"

text \<open>
  A state of the example application in which the task \<open>needy\<close> is loaded: it
  requires the task \<open>missing\<close>, which no root holds, and the environment asks for the
  required tasks to be run.
\<close>

definition needy_state :: state where
  "needy_state =
     \<lparr>ctx_obj = [(''VG_APP_DIR'', YStr ''/app''), (''VG_VERBOSE'', YStr ''''),
                 (''VG_RUN_REQUIRED'', YStr ''1'')],
      metas = [YDict [(''requires'', YList [YStr ''missing''])]],
      load_meta_cache = [(''/app/tasks/needy'', 0)], as_command_cache = [],
      as_group_cache = [], spawned = []\<rparr>"

text \<open>
  A state with two metadata objects in the store: one whose image is the bare string
  \<open>myimage:latest\<close>, and one whose image is the empty string.
\<close>

definition image_state :: state where
  "image_state =
     \<lparr>ctx_obj = [(''VG_APP_DIR'', YStr ''/app''), (''VG_VERBOSE'', YStr '''')],
      metas = [YDict [(''image'', YStr ''myimage:latest'')], YDict [(''image'', YStr '''')]],
      load_meta_cache = [], as_command_cache = [], as_group_cache = [], spawned = []\<rparr>"

section \<open>Steps that spawn nothing\<close>

text \<open>
  \<open>quiet st r st'\<close>: a step from \<open>st\<close> to \<open>st'\<close> with result \<open>r\<close> spawned no process
  and did not raise \<open>SystemExit\<close>.
\<close>

definition is_exit :: "error \<Rightarrow> bool" where
  "is_exit e = (case e of SystemExit c \<Rightarrow> True | _ \<Rightarrow> False)"

definition quiet :: "state \<Rightarrow> error + 'a \<Rightarrow> state \<Rightarrow> bool" where
  "quiet st r st' =
     (spawned st' = spawned st \<and> (case r of Inl e \<Rightarrow> \<not> is_exit e | Inr x \<Rightarrow> True))"

section \<open>What a run does to the log of spawned processes\<close>




section \<open>The tag of a cached image mapping\<close>

text \<open>
  \<open>has_tag v\<close>: the value is a metadata mapping whose image is a mapping with the key
  \<open>tag\<close>. \<open>pack_docker\<close> is the process that the example task \<open>pack\<close> spawns when
  its only argument is \<open>7\<close>, and \<open>pack_state\<close> is the state in which the example
  application has loaded \<open>pack\<close>, with the image mapping given.
\<close>

definition has_tag :: "yval \<Rightarrow> bool" where
  "has_tag v =
     (case v of
        YDict m \<Rightarrow> (case dict_get m ''image'' of YDict img \<Rightarrow> map_of img ''tag'' \<noteq> None | _ \<Rightarrow> False)
      | _ \<Rightarrow> False)"

definition pack_docker :: "invocation \<times> int" where
  "pack_docker =
     (\<lparr>inv_cmd = ''docker'',
       inv_args =
         [YStr ''run'', YStr ''--volume'', YStr ''/app/tasks/pack:/vg-task'',
          YStr ''--label'', YStr ''vantage'', YStr ''--label'', YStr ''vantage-task'',
          YStr ''--rm'', YStr ''--network'', YStr ''a'', YStr ''--network'', YStr ''b'',
          YStr ''--env'', YStr ''VG_APP_DIR'', YStr ''--env'', YStr ''VG_VERBOSE'',
          YStr ''repo/img-7'', YStr ''/vg-task'', YStr ''7''],
       inv_tty_in = False,
       inv_env = [(''VG_APP_DIR'', YStr ''/app''), (''VG_VERBOSE'', YStr '''')],
       inv_cwd = YStr ''/app''\<rparr>, 0)"

definition pack_state :: "dict \<Rightarrow> (invocation \<times> int) list \<Rightarrow> state" where
  "pack_state img log =
     \<lparr>ctx_obj = [(''VG_APP_DIR'', YStr ''/app''), (''VG_VERBOSE'', YStr '''')],
      metas = [YDict [(''image'', YDict img)]],
      load_meta_cache = [(''/app/tasks/pack'', 0)], as_command_cache = [],
      as_group_cache = [], spawned = log\<rparr>"

section \<open>Dictionaries: lookup after update\<close>

lemma map_of_dict_set: "map_of (dict_set d k v) = (map_of d)(k \<mapsto> v)"
  by (induction d) auto

lemma keys_dict_set: "set (keys (dict_set d k v)) = insert k (set (keys d))"
  by (induction d) (force simp: keys_def)+

lemma distinct_dict_set: "distinct (keys d) \<Longrightarrow> distinct (keys (dict_set d k v))"
proof (induction d)
  case Nil
  then show ?case by (simp add: keys_def)
next
  case (Cons p d)
  obtain k' v' where p: "p = (k', v')" by (cases p)
  from Cons.prems have "k' \<notin> set (keys d)" and "distinct (keys d)"
    by (simp_all add: keys_def p)
  with Cons.IH show ?case
    using keys_dict_set [of d k v] by (auto simp: p keys_def)
qed

lemma map_of_fold_dict_set:
  "distinct (keys other) \<Longrightarrow>
     map_of (fold (\<lambda>(k, v) acc. dict_set acc k v) other d) = map_of d ++ map_of other"
proof (induction other arbitrary: d)
  case Nil
  then show ?case by simp
next
  case (Cons p other)
  obtain k v where p: "p = (k, v)" by (cases p)
  from Cons.prems have fresh: "k \<notin> fst ` set other" and dist: "distinct (keys other)"
    by (auto simp: keys_def p)
  from fresh have none: "map_of other k = None"
    by (simp add: map_of_eq_None_iff)
  have "map_of (fold (\<lambda>(k, v) acc. dict_set acc k v) (p # other) d) =
          map_of (dict_set d k v) ++ map_of other"
    using Cons.IH [OF dist, of "dict_set d k v"] by (simp add: p)
  also have "\<dots> = map_of d ++ map_of (p # other)"
    using none by (auto simp: p map_of_dict_set map_add_def fun_eq_iff split: option.splits)
  finally show ?case .
qed

lemma map_of_dict_update:
  "distinct (keys other) \<Longrightarrow> map_of (dict_update d other) = map_of d ++ map_of other"
  by (simp add: dict_update_def map_of_fold_dict_set)

lemma distinct_dict_update: "distinct (keys d) \<Longrightarrow> distinct (keys (dict_update d other))"
  unfolding dict_update_def
  by (induction other arbitrary: d) (auto simp: distinct_dict_set)

lemma dict_set_fresh: "k \<notin> set (keys d) \<Longrightarrow> dict_set d k v = d @ [(k, v)]"
  by (induction d) (auto simp: keys_def)

lemma dict_update_disjoint:
  "distinct (keys other) \<Longrightarrow> set (keys d) \<inter> set (keys other) = {} \<Longrightarrow>
     dict_update d other = d @ other"
proof (induction other arbitrary: d)
  case Nil
  then show ?case by (simp add: dict_update_def)
next
  case (Cons p other)
  obtain k v where p: "p = (k, v)" by (cases p)
  from Cons.prems have fresh: "k \<notin> set (keys d)" "k \<notin> set (keys other)"
    and dist: "distinct (keys other)" and disj: "set (keys d) \<inter> set (keys other) = {}"
    by (auto simp: keys_def p)
  have "set (keys (d @ [(k, v)])) \<inter> set (keys other) = {}"
    using fresh disj by (auto simp: keys_def)
  from Cons.IH [OF dist this] show ?case
    by (simp add: dict_update_def p dict_set_fresh [OF fresh(1)])
qed

lemma dict_get_set_same: "dict_get (dict_set m k v) k = v"
  by (simp add: dict_get_def dict_get_default_def map_of_dict_set)

lemma dict_get_set_other: "k' \<noteq> k \<Longrightarrow> dict_get (dict_set m k v) k' = dict_get m k'"
  by (simp add: dict_get_def dict_get_default_def map_of_dict_set)

section \<open>The store: reading after writing\<close>

lemma read_env_write_defaults:
  "meta_at st a = YDict m \<Longrightarrow> read_env (write_env st (DefaultsOf a) d) (DefaultsOf a) = d"
  by (auto simp: read_env_def write_env_def meta_at_def dict_get_set_same split: if_splits)

lemma meta_at_write_ctx: "meta_at (write_env st CtxObj d) a = meta_at st a"
  by (simp add: write_env_def meta_at_def)

lemma read_env_write_ctx: "read_env (write_env st CtxObj d) CtxObj = d"
  by (simp add: read_env_def write_env_def)

section \<open>Environment composition (claim C3)\<close>

lemma update_env_result:
  assumes meta: "meta_at st a = YDict m"
    and ov: "dict_get m ''overrides'' = YDict ov \<or> (dict_get m ''overrides'' = YNull \<and> ov = [])"
    and df: "dict_get m ''defaults'' = YDict df \<or> (dict_get m ''defaults'' = YNull \<and> df = [])"
    and verbose: "map_of (ctx_obj st) ''VG_VERBOSE'' \<noteq> None"
    and dist: "distinct (keys (ctx_obj st))" "distinct (keys ov)"
  shows "\<exists>r st'. update_env a CtxObj st = (Inr r, st') \<and>
           read_env st' r = dict_update df (dict_update (ctx_obj st) ov)"
proof -
  define e1 where "e1 = dict_update (ctx_obj st) ov"
  define st1 where "st1 = (if dict_get m ''overrides'' = YNull then st else write_env st CtxObj e1)"
  have e1: "map_of e1 = map_of (ctx_obj st) ++ map_of ov"
    by (simp add: e1_def map_of_dict_update dist)
  have d1: "distinct (keys e1)"
    by (simp add: e1_def distinct_dict_update dist)
  have r1: "read_env st1 CtxObj = e1"
  proof (cases "dict_get m ''overrides'' = YNull")
    case True
    with ov show ?thesis by (simp add: st1_def read_env_def e1_def dict_update_def)
  next
    case False
    then show ?thesis by (simp add: st1_def read_env_write_ctx)
  qed
  have m1: "meta_at st1 a = YDict m"
    by (simp add: st1_def meta_at_write_ctx meta)
  have v1: "map_of (read_env st1 CtxObj) ''VG_VERBOSE'' \<noteq> None"
    using verbose by (auto simp: r1 e1 map_add_def split: option.splits)
  have step1: "(if dict_get m ''overrides'' \<noteq> YNull then
               (case map_of (read_env st CtxObj) ''VG_VERBOSE'' of
                  None \<Rightarrow> Inl (KeyError ''VG_VERBOSE'')
                | Some verbose \<Rightarrow>
                   (case dict_get m ''overrides'' of
                      YDict other \<Rightarrow> Inr (write_env st CtxObj (dict_update (read_env st CtxObj) other))
                    | v \<Rightarrow>
                       if truthy verbose then Inl AttributeError
                       else (case update_from (read_env st CtxObj) v of
                               Inl e \<Rightarrow> Inl e
                             | Inr d \<Rightarrow> Inr (write_env st CtxObj d))))
             else Inr st) = Inr st1"
    using ov verbose by (auto simp: st1_def e1_def read_env_def)
  show ?thesis
  proof (cases "dict_get m ''defaults'' = YNull")
    case True
    with df have "df = []" by auto
    moreover have "dict_update [] e1 = e1"
      using dict_update_disjoint [OF d1, of "[]"] by (simp add: keys_def)
    moreover have "update_env a CtxObj st = (Inr CtxObj, st1)"
      unfolding update_env_def meta yval.case step1 sum.case using True by simp
    ultimately show ?thesis using r1 by (auto simp: e1_def)
  next
    case False
    with df have dfd: "dict_get m ''defaults'' = YDict df" by auto
    have "update_env a CtxObj st =
            (Inr (DefaultsOf a), write_env st1 (DefaultsOf a) (dict_update df (read_env st1 CtxObj)))"
      unfolding update_env_def meta yval.case step1 sum.case using dfd v1 by auto
    moreover have "read_env (write_env st1 (DefaultsOf a) (dict_update df (read_env st1 CtxObj))) (DefaultsOf a)
        = dict_update df e1"
      by (simp add: read_env_write_defaults [OF m1] r1)
    ultimately show ?thesis by (auto simp: e1_def)
  qed
qed

text \<open>
  Claim C3. \<open>E\<close> is the environment \<open>ctx.obj\<close> that \<open>task_cmd\<close> passes, with the
  reserved key \<open>VG_VERBOSE\<close> that the data model gives every environment (both
  branches read it); \<open>ov\<close> and \<open>df\<close> are the \<open>overrides\<close> and \<open>defaults\<close> of the
  metadata, an absent one counting as empty. \<open>update_env\<close> returns without raising, and
  the environment it returns is \<open>df\<close> overlaid by \<open>E\<close> overlaid by \<open>ov\<close> (the right
  operand of \<open>++\<close> wins): with pairwise disjoint keys it holds exactly the entries of
  \<open>E\<close>, \<open>ov\<close> and \<open>df\<close>; on a key of \<open>ov\<close> the value of \<open>ov\<close> wins; on a key of
  \<open>E\<close> or \<open>ov\<close> the value that is not the default wins.
\<close>

theorem update_env_composition:
  assumes meta: "meta_at st a = YDict m"
    and ov: "dict_get m ''overrides'' = YDict ov \<or> (dict_get m ''overrides'' = YNull \<and> ov = [])"
    and df: "dict_get m ''defaults'' = YDict df \<or> (dict_get m ''defaults'' = YNull \<and> df = [])"
    and verbose: "map_of (ctx_obj st) ''VG_VERBOSE'' \<noteq> None"
    and dist: "distinct (keys (ctx_obj st))" "distinct (keys ov)" "distinct (keys df)"
  shows "\<exists>r st'. update_env a CtxObj st = (Inr r, st') \<and>
           map_of (read_env st' r) = map_of df ++ (map_of (ctx_obj st) ++ map_of ov) \<and>
           (set (keys (ctx_obj st)) \<inter> set (keys ov) = {} \<and>
            set (keys df) \<inter> (set (keys (ctx_obj st)) \<union> set (keys ov)) = {} \<longrightarrow>
              set (read_env st' r) = set (ctx_obj st) \<union> set ov \<union> set df) \<and>
           (\<forall>k \<in> set (keys ov). map_of (read_env st' r) k = map_of ov k) \<and>
           (\<forall>k \<in> set (keys (ctx_obj st)) \<union> set (keys ov).
              map_of (read_env st' r) k = (map_of (ctx_obj st) ++ map_of ov) k)"
proof -
  from update_env_result [OF meta ov df verbose dist(1,2)] obtain r st' where
    run: "update_env a CtxObj st = (Inr r, st')"
    and res: "read_env st' r = dict_update df (dict_update (ctx_obj st) ov)"
    by blast
  have d1: "distinct (keys (dict_update (ctx_obj st) ov))"
    by (simp add: distinct_dict_update dist)
  have law: "map_of (read_env st' r) = map_of df ++ (map_of (ctx_obj st) ++ map_of ov)"
    by (simp add: res map_of_dict_update d1 dist)
  have union: "set (read_env st' r) = set (ctx_obj st) \<union> set ov \<union> set df"
    if "set (keys (ctx_obj st)) \<inter> set (keys ov) = {}"
      and "set (keys df) \<inter> (set (keys (ctx_obj st)) \<union> set (keys ov)) = {}"
  proof -
    have e1: "dict_update (ctx_obj st) ov = ctx_obj st @ ov"
      using that(1) by (simp add: dict_update_disjoint dist)
    have "set (keys df) \<inter> set (keys (ctx_obj st @ ov)) = {}"
      using that(2) by (auto simp: keys_def)
    with d1 have "dict_update df (ctx_obj st @ ov) = df @ ctx_obj st @ ov"
      by (simp add: e1 dict_update_disjoint)
    then show ?thesis by (auto simp: res e1)
  qed
  have over: "map_of (read_env st' r) k = map_of ov k" if "k \<in> set (keys ov)" for k
  proof -
    from that obtain v where "(k, v) \<in> set ov" by (auto simp: keys_def)
    with dist(2) have "map_of ov k = Some v" by (simp add: keys_def)
    then show ?thesis by (simp add: law map_add_def)
  qed
  have nondefault: "map_of (read_env st' r) k = (map_of (ctx_obj st) ++ map_of ov) k"
    if "k \<in> set (keys (ctx_obj st)) \<union> set (keys ov)" for k
  proof -
    from that have "k \<in> dom (map_of (ctx_obj st) ++ map_of ov)"
      by (auto simp: keys_def dom_map_of_conv_image_fst)
    then have "(map_of (ctx_obj st) ++ map_of ov) k \<noteq> None"
      by (simp only: domIff not_False_eq_True)
    then obtain v where v: "(map_of (ctx_obj st) ++ map_of ov) k = Some v"
      by (cases "(map_of (ctx_obj st) ++ map_of ov) k") simp_all
    then have "(map_of df ++ (map_of (ctx_obj st) ++ map_of ov)) k = Some v"
      by (rule map_add_find_right)
    with v show ?thesis by (simp only: law)
  qed
  from run law union over nondefault show ?thesis by blast
qed

theorem update_env_composition_witness:
  "meta_at compose_state 0 =
     YDict [(''overrides'', YDict [(''A'', YStr ''over''), (''B'', YStr ''over'')]),
            (''defaults'', YDict [(''B'', YStr ''dflt''), (''C'', YStr ''dflt'')])] \<and>
   map_of (ctx_obj compose_state) ''VG_VERBOSE'' \<noteq> None \<and>
   (\<exists>r st'. update_env 0 CtxObj compose_state = (Inr r, st') \<and>
      map_of (read_env st' r) ''A'' = Some (YStr ''over'') \<and>
      map_of (read_env st' r) ''B'' = Some (YStr ''over'') \<and>
      map_of (read_env st' r) ''C'' = Some (YStr ''dflt''))"
  using update_env_composition [of compose_state 0
      "[(''overrides'', YDict [(''A'', YStr ''over''), (''B'', YStr ''over'')]),
        (''defaults'', YDict [(''B'', YStr ''dflt''), (''C'', YStr ''dflt'')])]"
      "[(''A'', YStr ''over''), (''B'', YStr ''over'')]"
      "[(''B'', YStr ''dflt''), (''C'', YStr ''dflt'')]"]
  by (auto simp: compose_state_def meta_at_def dict_get_def dict_get_default_def keys_def)

section \<open>The run-required flag (claim C1)\<close>

text \<open>
  Claim C1 fails on the code. \<open>get_flag\<close> alone has the three-way precedence, but
  \<open>task_cmd\<close> calls it with \<open>bool(env.get("VG_RUN_REQUIRED"))\<close>, which is never
  \<open>None\<close>: the flag is the truth value of the environment entry, and the metadata is
  never consulted. With no \<open>VG_RUN_REQUIRED\<close> in the environment and
  \<open>run-required: true\<close> in the metadata the flag is false; and the run of the example
  task \<open>build\<close>, whose metadata says \<open>run-required: true\<close> and \<open>requires: [setup]\<close>,
  spawns the process of \<open>build\<close> alone: \<open>setup\<close> is neither looked up nor run.
\<close>

theorem run_required_ignores_metadata:
  "run_required_flag [(''VG_APP_DIR'', YStr ''/app''), (''VG_VERBOSE'', YStr '''')]
     [(''run-required'', YBool True), (''requires'', YList [YStr ''setup''])] = YBool False \<and>
   task_cmd (Suc (Suc 0)) demo_world ''/app/tasks/build'' [] demo_state =
     Some (Inr (),
       \<lparr>ctx_obj = [(''VG_APP_DIR'', YStr ''/app''), (''VG_VERBOSE'', YStr ''''),
                   (''PATH'', YStr ''/usr/bin'')],
        metas = [YDict [(''run-required'', YBool True), (''requires'', YList [YStr ''setup''])]],
        load_meta_cache = [(''/app/tasks/build'', 0)],
        as_command_cache = [], as_group_cache = [],
        spawned = [(\<lparr>inv_cmd = ''/app/tasks/build'', inv_args = [], inv_tty_in = False,
                      inv_env = [(''VG_APP_DIR'', YStr ''/app''), (''VG_VERBOSE'', YStr ''''),
                                 (''PATH'', YStr ''/usr/bin'')],
                      inv_cwd = YStr ''/app''\<rparr>, 0)]\<rparr>)"
  by (simp add: run_required_flag_def get_flag_def dict_get_def dict_get_default_def
      demo_world_def demo_state_def build_text_def load_meta_def parse_meta_def
      is_linebreak_def lru_store_def numeral_2_eq_2 update_env_def meta_at_def
      read_env_def write_env_def run_task_def build_invocation_def spawn_def)

section \<open>Placeholder substitution (claim C2)\<close>

lemma str_replace_absent:
  "\<not> contains (a # as) s \<Longrightarrow> str_replace (a # as) new s = s"
  by (induction s) auto

lemma subst_step_str:
  "subst_step (a # as) (YStr v) (YStr s) = Inr (YStr (str_replace (a # as) v s))"
  by (simp add: subst_step_def str_replace_absent)

lemma insert_env_str:
  "insert_env (map (\<lambda>(k, v). (k, YStr v)) env) (YStr s) =
     Inr (YStr (fold (\<lambda>(k, v). str_replace (CHR ''$'' # k) v) env s))"
  by (induction env arbitrary: s) (auto simp: subst_step_str)

lemma insert_args_str:
  "insert_args i args (YStr s) =
     Inr (YStr (fold (\<lambda>(j, v). str_replace (CHR ''$'' # str_of_nat j) v) (enumerate i args) s))"
  by (induction args arbitrary: s i) (auto simp: subst_step_str)

text \<open>
  Claim C2 as stated fails: the example yields \<open>x and x\<close>, not \<open>x and $0\<close>. The loop
  over the environment first puts \<open>$0\<close> in the place of \<open>$FOO\<close>, and the loop over
  the arguments then replaces both \<open>$0\<close>.
\<close>

theorem insert_env_vals_rescans:
  "insert_env_vals (YStr ''$0 and $FOO'') [(''FOO'', YStr ''$0'')] [''x''] = Inr (YStr ''x and x'') \<and>
   insert_env_vals (YStr ''$0 and $FOO'') [(''FOO'', YStr ''$0'')] [''x''] \<noteq> Inr (YStr ''x and $0'')"
  by (simp add: insert_env_vals_def subst_step_def str_of_nat.simps)

text \<open>
  Claim C2 as amended. On a string, with an environment of strings, \<open>insert_env_vals\<close>
  never raises and is a sequence of \<open>str.replace\<close> passes, one for each key in the
  order of the environment and then one for each argument index in ascending order; each
  pass works on the string that the passes before it produced. A pass does not look
  into the text it inserts itself, but every later pass does.
\<close>

theorem insert_env_vals_sequential:
  "insert_env_vals (YStr s) (map (\<lambda>(k, v). (k, YStr v)) env) args =
     Inr (YStr (fold (\<lambda>(i, v). str_replace (CHR ''$'' # str_of_nat i) v) (enumerate 0 args)
                  (fold (\<lambda>(k, v). str_replace (CHR ''$'' # k) v) env s)))"
  by (simp add: insert_env_vals_def insert_env_str insert_args_str)

theorem insert_env_vals_sequential_witness:
  "insert_env_vals (YStr ''$A-$0'') [(''A'', YStr ''$A$0'')] [''x''] = Inr (YStr ''$Ax-x'')"
  using insert_env_vals_sequential [of "''$A-$0''" "[(''A'', ''$A$0'')]" "[''x'']"]
  by (simp add: str_of_nat.simps)

section \<open>Flattening the image options (claim C8)\<close>

lemma contains_head_in_set: "contains (c # n) s \<Longrightarrow> c \<in> set s"
  by (induction s) auto

lemma subst_step_no_dollar:
  "c \<notin> set s \<Longrightarrow> subst_step (c # n) v (YStr s) = Inr (YStr s)"
  using contains_head_in_set [of c n s] by (auto simp: subst_step_def)

lemma insert_env_no_dollar:
  "CHR ''$'' \<notin> set s \<Longrightarrow> insert_env env (YStr s) = Inr (YStr s)"
  by (induction env) (auto simp: subst_step_no_dollar)

lemma insert_args_no_dollar:
  "CHR ''$'' \<notin> set s \<Longrightarrow> insert_args i args (YStr s) = Inr (YStr s)"
  by (induction args arbitrary: i) (auto simp: subst_step_no_dollar)

lemma insert_env_vals_no_dollar:
  "CHR ''$'' \<notin> set s \<Longrightarrow> insert_env_vals (YStr s) env args = Inr (YStr s)"
  by (simp add: insert_env_vals_def insert_env_no_dollar insert_args_no_dollar)

lemma insert_env_vals_passes:
  "insert_env_vals (YStr s) (map (\<lambda>(k, v). (k, YStr v)) env) args =
     Inr (YStr (fold (\<lambda>(i, v). str_replace (CHR ''$'' # str_of_nat i) v) (enumerate 0 args)
                  (fold (\<lambda>(k, v). str_replace (CHR ''$'' # k) v) env s)))"
  by (simp add: insert_env_vals_def insert_env_str insert_args_str)

lemma flatten_list_typed:
  assumes "\<And>s. insert_env_vals (YStr s) env args = Inr (YStr (sub s))"
  shows "flatten_list k (map YStr xs) env args =
           Inr (concat (map (\<lambda>x. [YStr (''--'' @ k), YStr (sub x)]) xs))"
  by (induction xs) (simp_all add: assms)

lemma flatten_option_typed:
  assumes "\<And>s. insert_env_vals (YStr s) env args = Inr (YStr (sub s))"
  shows "flatten_option k (option_yval v) env args =
           Inr (case v of
                  OList xs \<Rightarrow> concat (map (\<lambda>x. [YStr (''--'' @ k), YStr (sub x)]) xs)
                | OBool b \<Rightarrow> if b then [YStr (''--'' @ k)] else []
                | OStr s \<Rightarrow> [YStr (''--'' @ k), YStr (sub s)])"
  by (cases v) (simp_all add: assms flatten_list_typed [of env args sub])

lemma flatten_image_typed:
  assumes "\<And>s. insert_env_vals (YStr s) env args = Inr (YStr (sub s))"
  shows "flatten_image (map (\<lambda>(k, v). (k, option_yval v)) opts) env args =
           Inr (concat (map (\<lambda>(k, v).
                  case v of
                    OList xs \<Rightarrow> concat (map (\<lambda>x. [YStr (''--'' @ k), YStr (sub x)]) xs)
                  | OBool b \<Rightarrow> if b then [YStr (''--'' @ k)] else []
                  | OStr s \<Rightarrow> [YStr (''--'' @ k), YStr (sub s)]) opts))"
proof (induction opts)
  case Nil
  then show ?case by simp
next
  case (Cons p opts)
  obtain k v where p: "p = (k, v)" by (cases p)
  show ?case
    using Cons.IH flatten_option_typed [of env args sub k v, OF assms]
    by (cases v) (simp_all add: p del: append.simps)
qed

text \<open>
  Claim C8. \<open>opts\<close> are the entries of the image mapping after \<open>tag\<close> was removed,
  with the option values of the data model, and \<open>env\<close> is an environment of strings.
  \<open>flatten_image\<close> does not raise, and its output is the concatenation, in the
  iteration order of the mapping, of: one pair \<open>--key\<close>, substituted element for every
  element of a list; the bare flag \<open>--key\<close> for \<open>True\<close> and nothing for \<open>False\<close>;
  one pair \<open>--key\<close>, substituted value for a string. The substituted value \<open>sub s\<close>
  of a string \<open>s\<close> is written out: the \<open>str.replace\<close> passes for the keys of the
  environment, in its order, and then those for the argument indices, each pass on the
  result of the one before. The three examples of the claim hold in every environment
  and for all arguments.
\<close>

theorem flatten_image_options:
  "(let sub = (\<lambda>s. fold (\<lambda>(i, v). str_replace (CHR ''$'' # str_of_nat i) v) (enumerate 0 args)
                     (fold (\<lambda>(k, v). str_replace (CHR ''$'' # k) v) env s))
    in flatten_image (map (\<lambda>(k, v). (k, option_yval v)) opts)
         (map (\<lambda>(k, v). (k, YStr v)) env) args =
       Inr (concat (map (\<lambda>(k, v).
              case v of
                OList xs \<Rightarrow> concat (map (\<lambda>x. [YStr (''--'' @ k), YStr (sub x)]) xs)
              | OBool b \<Rightarrow> if b then [YStr (''--'' @ k)] else []
              | OStr s \<Rightarrow> [YStr (''--'' @ k), YStr (sub s)]) opts))) \<and>
   flatten_image [(''rm'', YBool True)] env' args' = Inr [YStr ''--rm''] \<and>
   flatten_image [(''rm'', YBool False)] env' args' = Inr [] \<and>
   flatten_image [(''network'', YList [YStr ''a'', YStr ''b''])] env' args' =
     Inr [YStr ''--network'', YStr ''a'', YStr ''--network'', YStr ''b'']"
  unfolding Let_def
proof (intro conjI)
  show "flatten_image (map (\<lambda>(k, v). (k, option_yval v)) opts)
          (map (\<lambda>(k, v). (k, YStr v)) env) args =
        Inr (concat (map (\<lambda>(k, v).
               case v of
                 OList xs \<Rightarrow>
                   concat (map (\<lambda>x. [YStr (''--'' @ k),
                     YStr (fold (\<lambda>(i, v). str_replace (CHR ''$'' # str_of_nat i) v)
                             (enumerate 0 args)
                             (fold (\<lambda>(k, v). str_replace (CHR ''$'' # k) v) env x))]) xs)
               | OBool b \<Rightarrow> if b then [YStr (''--'' @ k)] else []
               | OStr s \<Rightarrow>
                   [YStr (''--'' @ k),
                    YStr (fold (\<lambda>(i, v). str_replace (CHR ''$'' # str_of_nat i) v)
                            (enumerate 0 args)
                            (fold (\<lambda>(k, v). str_replace (CHR ''$'' # k) v) env s))]) opts))"
    by (rule flatten_image_typed [OF insert_env_vals_passes])
qed (simp_all add: insert_env_vals_no_dollar)

text \<open>
  An example with placeholders of both kinds: \<open>$NET\<close> and \<open>$USER\<close> are keys of the
  environment and \<open>$0\<close> is the first argument.
\<close>

theorem flatten_image_options_witness:
  "flatten_image
     [(''rm'', YBool True), (''tty'', YBool False),
      (''network'', YList [YStr ''a'', YStr ''net-$NET'']),
      (''name'', YStr ''box-$0-$USER'')]
     [(''USER'', YStr ''alice''), (''NET'', YStr ''lan'')] [''7''] =
     Inr [YStr ''--rm'', YStr ''--network'', YStr ''a'', YStr ''--network'', YStr ''net-lan'',
          YStr ''--name'', YStr ''box-7-alice'']"
  using flatten_image_options [of "[''7'']" "[(''USER'', ''alice''), (''NET'', ''lan'')]"
      "[(''rm'', OBool True), (''tty'', OBool False), (''network'', OList [''a'', ''net-$NET'']),
        (''name'', OStr ''box-$0-$USER'')]"]
  by (simp add: str_of_nat.simps)

section \<open>Metadata parsing without a delimiter (claim C9)\<close>

lemma load_meta_fresh:
  assumes "map_of (load_meta_cache st) path = None" "read_text w path = Some content"
    "parse_meta w content = Inr m"
  shows "\<exists>st'. load_meta w path st = (Inr (length (metas st)), st') \<and>
           meta_at st' (length (metas st)) = m"
  using assms by (simp add: load_meta_def meta_at_def)

text \<open>
  Claim C9. When no line of the text contains \<open>---\<close>, parsing returns the empty
  mapping and does not raise; \<open>load_meta\<close> on a file with that text, which the cache
  does not hold yet, returns a new object that is the empty mapping.
\<close>

theorem load_meta_no_delimiter:
  assumes "\<forall>l \<in> set (splitlines content). \<not> contains ''---'' l"
  shows "parse_meta w content = Inr (YDict []) \<and>
         (read_text w path = Some content \<and> map_of (load_meta_cache st) path = None \<longrightarrow>
            (\<exists>st'. load_meta w path st = (Inr (length (metas st)), st') \<and>
                    meta_at st' (length (metas st)) = YDict []))"
proof -
  from assms have "find (contains ''---'') (splitlines content) = None"
    by (simp add: find_None_iff)
  then have "parse_meta w content = Inr (YDict [])"
    by (simp add: parse_meta_def)
  then show ?thesis using load_meta_fresh [of st path w content "YDict []"] by blast
qed

theorem load_meta_no_delimiter_witness:
  "splitlines ''echo setup\<newline>'' = [''echo setup''] \<and> \<not> contains ''---'' ''echo setup'' \<and>
   read_text demo_world ''/app/tasks/setup'' = Some ''echo setup\<newline>'' \<and>
   parse_meta demo_world ''echo setup\<newline>'' = Inr (YDict []) \<and>
   (\<exists>st'. load_meta demo_world ''/app/tasks/setup'' demo_state = (Inr 0, st') \<and>
           meta_at st' 0 = YDict [])"
  using load_meta_no_delimiter [of "''echo setup\<newline>''" demo_world "''/app/tasks/setup''" demo_state]
  by (simp add: is_linebreak_def demo_world_def demo_state_def)

section \<open>The container invocation for a bare image (claim C5)\<close>

text \<open>
  Claim C5 as stated fails in two places. The volume that is mounted on \<open>/vg-task\<close> is
  the task file itself, \<open>str(path)\<close>, not its directory: for the task file
  \<open>/app/tasks/lint\<close> the argument is \<open>/app/tasks/lint:/vg-task\<close>. And an image that is
  the empty string is false in the test of line 33, so that task is run directly and no
  container invocation is built.
\<close>

theorem bare_image_mounts_task_file:
  "build_invocation demo_world ''/app/tasks/lint'' 0 CtxObj [''x''] image_state =
     (Inr (''docker'',
           [YStr ''run'', YStr ''--volume'', YStr ''/app/tasks/lint:/vg-task'',
            YStr ''--label'', YStr ''vantage'', YStr ''--label'', YStr ''vantage-task'',
            YStr ''--rm'', YStr ''--env'', YStr ''VG_APP_DIR'', YStr ''--env'', YStr ''VG_VERBOSE'',
            YStr ''myimage:latest'', YStr ''/vg-task'', YStr ''x''],
           False),
      image_state) \<and>
   fst (build_invocation demo_world ''/app/tasks/lint'' 1 CtxObj [''x''] image_state) =
     Inr (''/app/tasks/lint'', [YStr ''x''], False)"
  by (simp add: build_invocation_def image_state_def demo_world_def meta_at_def dict_get_def
      dict_get_default_def base_run_args_def env_flags_def keys_def read_env_def)

text \<open>
  Claim C5 as amended. For a task whose image is a non-empty bare string, with the
  container runtime found, the invocation runs \<open>docker\<close> with exactly these arguments:
  \<open>run\<close>, the volume mount of the task file on \<open>/vg-task\<close>, the two labels, \<open>--rm\<close>,
  one \<open>--env K\<close> for every key of the effective environment in its order, the tag as
  it is, \<open>/vg-task\<close>, and the user's arguments; \<open>tty_in\<close> is false and nothing in
  the store changes.
\<close>

theorem bare_image_invocation:
  assumes "meta_at st a = YDict m" "dict_get m ''image'' = YStr tag" "tag \<noteq> []"
    "which w ''docker''"
  shows "build_invocation w path a r args st =
          (Inr (''docker'',
                [YStr ''run'', YStr ''--volume'', YStr (path @ '':/vg-task''),
                 YStr ''--label'', YStr ''vantage'', YStr ''--label'', YStr ''vantage-task'',
                 YStr ''--rm''] @
                concat (map (\<lambda>k. [YStr ''--env'', YStr k]) (keys (read_env st r))) @
                [YStr tag, YStr ''/vg-task''] @ map YStr args,
                False), st)"
  using assms by (simp add: build_invocation_def base_run_args_def env_flags_def)

theorem bare_image_invocation_witness:
  "meta_at image_state 0 = YDict [(''image'', YStr ''myimage:latest'')] \<and>
   dict_get [(''image'', YStr ''myimage:latest'')] ''image'' = YStr ''myimage:latest'' \<and>
   which demo_world ''docker'' \<and>
   build_invocation demo_world ''/app/tasks/lint'' 0 CtxObj [''x''] image_state =
     (Inr (''docker'',
           [YStr ''run'', YStr ''--volume'', YStr ''/app/tasks/lint:/vg-task'',
            YStr ''--label'', YStr ''vantage'', YStr ''--label'', YStr ''vantage-task'',
            YStr ''--rm'', YStr ''--env'', YStr ''VG_APP_DIR'', YStr ''--env'', YStr ''VG_VERBOSE'',
            YStr ''myimage:latest'', YStr ''/vg-task'', YStr ''x''],
           False),
      image_state)"
  using bare_image_invocation [of image_state 0 "[(''image'', YStr ''myimage:latest'')]"
      "''myimage:latest''" demo_world "''/app/tasks/lint''" CtxObj "[''x'']"]
  by (simp add: image_state_def demo_world_def meta_at_def dict_get_def dict_get_default_def
      keys_def read_env_def)

section \<open>The locator spawns nothing\<close>

lemma load_meta_quiet: "load_meta w p st = (r, st') \<Longrightarrow> quiet st r st'"
  by (auto simp: load_meta_def quiet_def is_exit_def parse_meta_def
      split: option.splits sum.splits list.splits)





lemma first_executable_none:
  "list_all (\<lambda>p. is_executable w p = Inr False) ps \<Longrightarrow> first_executable w ps = Inr None"
  by (induction ps) auto








section \<open>A name that no root resolves (claim C4)\<close>

lemma get_task_from_dir_no_match:
  assumes "is_executable w (joinpath w d name) = Inr False"
    and "snd (glob w d (name @ ''.*'')) = None"
    and "list_all (\<lambda>p. is_executable w p = Inr False \<and> is_dir w p = Some False)
           (fst (glob w d (name @ ''.*'')))"
    and "is_dir w (joinpath w d name) = Some False"
  shows "get_task_from_dir (Suc n) w d name st = Some (Inr None, st)"
proof -
  from assms(3) have "list_all (\<lambda>p. is_executable w p = Inr False)
      (fst (glob w d (name @ ''.*'')))"
    by (simp add: list_all_iff)
  then have none: "first_executable w (fst (glob w d (name @ ''.*''))) = Inr None"
    by (rule first_executable_none)
  have "is_dir w (if fst (glob w d (name @ ''.*'')) = [] then joinpath w d name
                  else last (fst (glob w d (name @ ''.*'')))) = Some False"
  proof (cases "fst (glob w d (name @ ''.*'')) = []")
    case True
    with assms(4) show ?thesis by simp
  next
    case False
    then have "last (fst (glob w d (name @ ''.*''))) \<in> set (fst (glob w d (name @ ''.*'')))"
      by simp
    with assms(3) False show ?thesis by (auto simp: list_all_iff)
  qed
  with assms(1,2) none show ?thesis by simp
qed

lemma write_env_spawned: "spawned (write_env st r d) = spawned st"
  by (simp add: write_env_def split: env_ref.splits yval.splits)

lemma update_env_spawned: "update_env a r st = (res, st') \<Longrightarrow> spawned st' = spawned st"
  by (auto simp: update_env_def write_env_spawned
      split: yval.splits if_splits option.splits sum.splits)

text \<open>
  Claim C4 as stated fails: the code has no \<open>TaskNotFound\<close>. For a name that nothing in
  the tasks directory matches, and with no plugins directory, \<open>get_task\<close> returns
  \<open>None\<close>, silently: no exception is raised and the state is as before.
\<close>

theorem get_task_returns_none:
  "get_task (Suc 0) demo_world (ctx_obj demo_state) (YStr ''missing'') demo_state =
     Some (Inr None, demo_state)"
  by (simp add: get_task_def get_task_dir_def get_plugins_dir_def root_dir_def as_path_def
      search_root_def is_executable_def demo_world_def demo_state_def dict_get_def
      dict_get_default_def)

text \<open>
  Claim C4 as amended. \<open>td\<close> and \<open>pd\<close> are the two search roots. Not resolvable means
  that every lookup of the search answers, and answers no: each root is no directory, or
  it is one in which the name is no executable file, the glob \<open>name.*\<close> ends without
  raising and yields neither an executable file nor a directory, and no directory has
  the name. Then \<open>get_task\<close> returns (it needs fuel for one call only) and its result
  is \<open>None\<close>: no exception, no group, and the state is unchanged. The caller is the
  loop of lines 26 to 30: when the name is the first task that a task requires,
  \<open>t.invoke(ctx)\<close> raises \<open>AttributeError\<close> on that \<open>None\<close>, and the run of
  \<open>task_cmd\<close> ends with it, having spawned nothing, whatever the tasks required after
  it are. \<open>st0\<close> is the state in which that run starts and \<open>st\<close> the state after
  its lines 17 and 18.
\<close>

theorem get_task_not_found:
  assumes "get_task_dir w env = Inr td" "get_plugins_dir w env = Inr pd"
    and "\<forall>d \<in> {td, pd}. is_dir w d = Some False \<or>
           (is_dir w d = Some True \<and>
            is_executable w (joinpath w d name) = Inr False \<and>
            snd (glob w d (name @ ''.*'')) = None \<and>
            list_all (\<lambda>p. is_executable w p = Inr False \<and> is_dir w p = Some False)
              (fst (glob w d (name @ ''.*''))) \<and>
            is_dir w (joinpath w d name) = Some False)"
  shows "get_task (Suc n) w env (YStr name) st = Some (Inr None, st) \<and>
         (read_env st r = env \<longrightarrow>
            run_requires (Suc n) w r (YStr name # rest) args st =
              Some (Inl AttributeError, st)) \<and>
         (\<forall>path st0 st1 a m.
            load_meta w path st0 = (Inr a, st1) \<and> update_env a CtxObj st1 = (Inr r, st) \<and>
            meta_at st a = YDict m \<and> read_env st r = env \<and>
            truthy (run_required_flag env m) \<and>
            iter_of (dict_get_default m ''requires'' (YList [])) = Inr (YStr name # rest) \<longrightarrow>
              task_cmd (Suc (Suc n)) w path args st0 = Some (Inl AttributeError, st) \<and>
              spawned st = spawned st0)"
proof -
  have "search_root (Suc n) w d (YStr name) s = Some (Inr None, s)" if "d \<in> {td, pd}" for d s
  proof (cases "is_dir w d = Some False")
    case True
    then show ?thesis by (simp add: search_root_def)
  next
    case False
    from assms(3) that have "is_dir w d = Some False \<or>
           (is_dir w d = Some True \<and>
            is_executable w (joinpath w d name) = Inr False \<and>
            snd (glob w d (name @ ''.*'')) = None \<and>
            list_all (\<lambda>p. is_executable w p = Inr False \<and> is_dir w p = Some False)
              (fst (glob w d (name @ ''.*''))) \<and>
            is_dir w (joinpath w d name) = Some False)"
      by (rule bspec)
    with False have isdir: "is_dir w d = Some True"
      and direct: "is_executable w (joinpath w d name) = Inr False"
      and nofail: "snd (glob w d (name @ ''.*'')) = None"
      and loop: "list_all (\<lambda>p. is_executable w p = Inr False \<and> is_dir w p = Some False)
             (fst (glob w d (name @ ''.*'')))"
      and nodir: "is_dir w (joinpath w d name) = Some False"
      by simp_all
    from isdir get_task_from_dir_no_match [OF direct nofail loop nodir, of n s] show ?thesis
      by (simp add: search_root_def del: get_task_from_dir.simps)
  qed
  then have found: "get_task (Suc n) w env (YStr name) s = Some (Inr None, s)" for s
    using assms(1,2) by (simp add: get_task_def)
  have loop: "run_requires (Suc n) w r (YStr name # rest) args st =
      Some (Inl AttributeError, st)" if "read_env st r = env"
    using that found [of st] by simp
  have run: "task_cmd (Suc (Suc n)) w path args st0 = Some (Inl AttributeError, st) \<and>
      spawned st = spawned st0"
    if "load_meta w path st0 = (Inr a, st1)" "update_env a CtxObj st1 = (Inr r, st)"
      "meta_at st a = YDict m" "read_env st r = env" "truthy (run_required_flag env m)"
      "iter_of (dict_get_default m ''requires'' (YList [])) = Inr (YStr name # rest)"
    for path st0 st1 a m
  proof -
    from that loop
    have "task_cmd (Suc (Suc n)) w path args st0 = Some (Inl AttributeError, st)"
      by (simp del: run_requires.simps)
    moreover from load_meta_quiet [OF that(1)] update_env_spawned [OF that(2)]
    have "spawned st = spawned st0" by (simp add: quiet_def)
    ultimately show ?thesis by simp
  qed
  from found [of st] loop run show ?thesis by blast
qed

theorem get_task_not_found_witness:
  "get_task_dir demo_world (ctx_obj needy_state) = Inr ''/app/tasks'' \<and>
   get_plugins_dir demo_world (ctx_obj needy_state) = Inr ''/app/.vg-plugins'' \<and>
   is_dir demo_world ''/app/tasks'' = Some True \<and>
   is_dir demo_world ''/app/.vg-plugins'' = Some False \<and>
   is_executable demo_world ''/app/tasks/missing'' = Inr False \<and>
   glob demo_world ''/app/tasks'' ''missing.*'' = ([], None) \<and>
   is_dir demo_world ''/app/tasks/missing'' = Some False \<and>
   get_task (Suc 0) demo_world (ctx_obj needy_state) (YStr ''missing'') needy_state =
     Some (Inr None, needy_state) \<and>
   read_env needy_state CtxObj = ctx_obj needy_state \<and>
   run_requires (Suc 0) demo_world CtxObj [YStr ''missing'', YStr ''setup''] [] needy_state =
     Some (Inl AttributeError, needy_state) \<and>
   load_meta demo_world ''/app/tasks/needy'' needy_state = (Inr 0, needy_state) \<and>
   update_env 0 CtxObj needy_state = (Inr CtxObj, needy_state) \<and>
   meta_at needy_state 0 = YDict [(''requires'', YList [YStr ''missing''])] \<and>
   truthy (run_required_flag (ctx_obj needy_state)
             [(''requires'', YList [YStr ''missing''])]) \<and>
   task_cmd (Suc (Suc 0)) demo_world ''/app/tasks/needy'' [] needy_state =
     Some (Inl AttributeError, needy_state) \<and>
   spawned needy_state = []"
  using get_task_not_found [of demo_world "ctx_obj needy_state" "''/app/tasks''"
      "''/app/.vg-plugins''" "''missing''" 0 needy_state CtxObj "[YStr ''setup'']" "[]"]
    get_task_not_found [of demo_world "ctx_obj needy_state" "''/app/tasks''"
      "''/app/.vg-plugins''" "''missing''" 0 needy_state CtxObj "[]" "[]"]
  by (simp add: get_task_dir_def get_plugins_dir_def root_dir_def as_path_def
      is_executable_def demo_world_def needy_state_def dict_get_def dict_get_default_def
      read_env_def load_meta_def lru_hit_def update_env_def meta_at_def write_env_def
      run_required_flag_def get_flag_def del: task_cmd.simps run_requires.simps)

section \<open>A directory beside a file of the same stem (claim C7)\<close>

text \<open>
  Claim C7 fails on the code. In the example, \<open>/app/tasks\<close> has the directory \<open>foo\<close>
  with the executable \<open>foo\<close> in it, no executable \<open>foo\<close> of its own and no executable
  match of \<open>foo.*\<close>; the claim promises the nested leaf \<open>/app/tasks/foo/foo\<close>. But the
  glob lists the plain file \<open>foo.txt\<close>, the loop of line 173 leaves \<open>task_path\<close> bound
  to it, and line 178 asks whether \<open>foo.txt\<close> is a directory: the result is \<open>None\<close>.
\<close>

theorem get_task_from_dir_misses_directory:
  "is_executable demo_world (joinpath demo_world ''/app/tasks'' ''foo'') = Inr False \<and>
   glob demo_world ''/app/tasks'' ''foo.*'' = ([''/app/tasks/foo.txt''], None) \<and>
   is_executable demo_world ''/app/tasks/foo.txt'' = Inr False \<and>
   is_dir demo_world (joinpath demo_world ''/app/tasks'' ''foo'') = Some True \<and>
   is_executable demo_world
     (joinpath demo_world (joinpath demo_world ''/app/tasks'' ''foo'') ''foo'') = Inr True \<and>
   get_task_from_dir (Suc (Suc 0)) demo_world ''/app/tasks'' ''foo'' demo_state =
     Some (Inr None, demo_state)"
  by (simp add: is_executable_def demo_world_def)

section \<open>More fuel gives the same result\<close>







section \<open>Exit codes (claim C6)\<close>

lemma is_exit_simps [simp]:
  "is_exit (KeyError k) = False" "is_exit TypeError = False" "is_exit AttributeError = False"
  "is_exit ValueError = False" "is_exit OSError = False"
  "is_exit NotImplementedError = False" "is_exit YAMLError = False"
  "is_exit UsageError = False" "is_exit (CommandNotFound p) = False"
  "is_exit (SystemExit c) = True"
  by (simp_all add: is_exit_def)


























section \<open>Running a task changes its cached metadata (claim C10)\<close>

lemma meta_at_update:
  "meta_at (st\<lparr>metas := (metas st)[b := v]\<rparr>) a =
     (if a = b \<and> b < length (metas st) then v else meta_at st a)"
  by (simp add: meta_at_def)

lemma meta_at_ctx: "meta_at (st\<lparr>ctx_obj := d\<rparr>) a = meta_at st a"
  by (simp add: meta_at_def)

lemma meta_at_YDict_bound: "meta_at st a = YDict m \<Longrightarrow> a < length (metas st)"
  by (simp add: meta_at_def split: if_splits)

lemma map_of_dict_remove: "map_of (dict_remove d k) k = None"
  by (simp add: dict_remove_def map_of_eq_None_iff image_iff)

lemma has_tag_write_env: "has_tag (meta_at (write_env st r d) a) = has_tag (meta_at st a)"
proof (cases r)
  case CtxObj
  then show ?thesis by (simp add: meta_at_write_ctx)
next
  case (DefaultsOf b)
  show ?thesis
  proof (cases "meta_at st b")
    case (YDict m)
    from meta_at_YDict_bound [OF this] have b: "b < length (metas st)" .
    have w: "write_env st r d =
               st\<lparr>metas := (metas st)[b := YDict (dict_set m ''defaults'' (YDict d))]\<rparr>"
      using YDict by (simp add: DefaultsOf write_env_def)
    show ?thesis
    proof (cases "a = b")
      case True
      with YDict b show ?thesis
        by (simp add: w meta_at_update has_tag_def dict_get_set_other)
    next
      case False
      then show ?thesis
        by (simp add: w meta_at_update)
    qed
  qed (simp_all add: DefaultsOf write_env_def)
qed

lemma build_invocation_no_tag:
  assumes "build_invocation w path a r args st = (Inr x, st')"
  shows "\<not> has_tag (meta_at st' a)"
proof (cases "meta_at st a")
  case (YDict m)
  from meta_at_YDict_bound [OF this] have a: "a < length (metas st)" .
  show ?thesis
  proof (cases "truthy (dict_get m ''image'')")
    case False
    then have "\<not> has_tag (meta_at st a)"
      by (cases "dict_get m ''image''") (auto simp: has_tag_def YDict)
    moreover from assms YDict False
    have "st' = write_env st r (dict_set (read_env st r) ''PATH'' (YStr (environ_PATH w)))"
      by (auto simp: build_invocation_def split: if_splits)
    ultimately show ?thesis by (simp add: has_tag_write_env)
  next
    case True
    show ?thesis
    proof (cases "dict_get m ''image''")
      case img: (YDict img)
      with assms YDict True have "st' = pop_tag a m img st"
        by (auto simp: build_invocation_def split: if_splits option.splits sum.splits)
      with a show ?thesis
        by (simp add: pop_tag_def meta_at_def has_tag_def dict_get_set_same map_of_dict_remove)
    qed (use assms YDict True in
        \<open>auto simp: build_invocation_def has_tag_def split: if_splits\<close>)
  qed
qed (use assms in \<open>simp_all add: build_invocation_def\<close>)

lemma run_task_no_tag:
  assumes "run_task w path a r args st = (Inr (), st')"
  shows "\<not> has_tag (meta_at st' a)"
proof -
  obtain b st1 where b: "build_invocation w path a r args st = (b, st1)"
    by (cases "build_invocation w path a r args st")
  with assms obtain x where x: "b = Inr x" by (cases b) (auto simp: run_task_def)
  from build_invocation_no_tag [OF b [unfolded x]] have "\<not> has_tag (meta_at st1 a)" .
  moreover from assms b x have "metas st' = metas st1"
    by (auto simp: run_task_def spawn_def split: prod.splits option.splits if_splits)
  then have "meta_at st' a = meta_at st1 a" by (simp add: meta_at_def)
  ultimately show ?thesis by simp
qed

lemma task_cmd_no_tag:
  assumes run: "task_cmd n w path args st = Some (Inr (), st')"
    and first: "load_meta w path st = (Inr a, st1)"
  shows "\<not> has_tag (meta_at st' a)"
proof (cases n)
  case 0
  with run show ?thesis by simp
next
  case (Suc k)
  obtain u st2 where u: "update_env a CtxObj st1 = (u, st2)"
    by (cases "update_env a CtxObj st1")
  from run Suc first u obtain env where env: "u = Inr env"
    by (cases u) auto
  from run Suc first u env obtain m where m: "meta_at st2 a = YDict m"
    by (cases "meta_at st2 a") auto
  define pre where "pre =
    (if truthy (run_required_flag (read_env st2 env) m) then
       (case iter_of (dict_get_default m ''requires'' (YList [])) of
          Inl e \<Rightarrow> Some (Inl e, st2)
        | Inr required \<Rightarrow> run_requires k w env required args st2)
     else Some (Inr (), st2))"
  from run Suc first u env m have "(case pre of None \<Rightarrow> None
      | Some (Inl e, st3) \<Rightarrow> Some (Inl e, st3)
      | Some (Inr u, st3) \<Rightarrow> Some (run_task w path a env args st3)) = Some (Inr (), st')"
    by (simp add: pre_def)
  then obtain st3 where "run_task w path a env args st3 = (Inr (), st')"
    by (auto split: option.splits sum.splits prod.splits)
  then show ?thesis by (rule run_task_no_tag)
qed

lemma load_meta_hit:
  "map_of (load_meta_cache st) path = Some a \<Longrightarrow>
     \<exists>st''. load_meta w path st = (Inr a, st'') \<and> metas st'' = metas st"
  by (simp add: load_meta_def)

lemma update_env_stores_environment:
  assumes "meta_at st a = YDict m" "dict_get m ''defaults'' = YDict df"
    and "update_env a CtxObj st = (Inr r, st')"
  shows "r = DefaultsOf a \<and>
         (\<exists>m'. meta_at st' a = YDict m' \<and>
                dict_get m' ''defaults'' = YDict (dict_update df (ctx_obj st')))"
proof -
  have bound: "a < length (metas st)" using assms(1) by (rule meta_at_YDict_bound)
  have *: "r = DefaultsOf a \<and>
         (\<exists>m'. meta_at (write_env s (DefaultsOf a) (dict_update df (ctx_obj s))) a = YDict m' \<and>
                dict_get m' ''defaults'' =
                  YDict (dict_update df (ctx_obj (write_env s (DefaultsOf a)
                     (dict_update df (ctx_obj s))))))"
    if "meta_at s a = YDict m" "r = DefaultsOf a" for s
    using that meta_at_YDict_bound [OF that(1)]
    by (simp add: write_env_def meta_at_def dict_get_set_same)
  from assms show ?thesis
    by (auto simp: update_env_def read_env_def meta_at_write_ctx meta_at_ctx
        split: if_splits option.splits sum.splits yval.splits
        intro!: * [THEN conjunct2] simp: write_env_def [of _ CtxObj])
qed

text \<open>
  Claim C10. \<open>a\<close> is the object that the first lookup of the task's metadata returns,
  and in it the image is a mapping with a \<open>tag\<close>. After a run of the task that returns
  normally, that same object is changed: its image has no \<open>tag\<close> any more. A later
  lookup that finds the cache entry returns this object, without the tag. The last part
  is the other change: when the metadata has \<open>defaults\<close>, \<open>update_env\<close> returns that
  mapping of the cached object as the environment, after storing every entry of the
  environment \<open>ctx.obj\<close> in it.
\<close>

theorem task_cmd_changes_cached_metadata:
  assumes run: "task_cmd n w path args st = Some (Inr (), st')"
    and first: "load_meta w path st = (Inr a, st1)"
    and tag: "has_tag (meta_at st1 a)"
  shows "\<not> has_tag (meta_at st' a) \<and> meta_at st' a \<noteq> meta_at st1 a \<and>
         (map_of (load_meta_cache st') path = Some a \<longrightarrow>
            (\<exists>st''. load_meta w path st' = (Inr a, st'') \<and> \<not> has_tag (meta_at st'' a))) \<and>
         (\<forall>m df r st2.
            meta_at st1 a = YDict m \<and> dict_get m ''defaults'' = YDict df \<and>
            update_env a CtxObj st1 = (Inr r, st2) \<longrightarrow>
              r = DefaultsOf a \<and>
              (\<exists>m'. meta_at st2 a = YDict m' \<and>
                     dict_get m' ''defaults'' = YDict (dict_update df (ctx_obj st2))))"
proof -
  have gone: "\<not> has_tag (meta_at st' a)"
    using run first by (rule task_cmd_no_tag)
  with tag have changed: "meta_at st' a \<noteq> meta_at st1 a" by auto
  have again: "\<exists>st''. load_meta w path st' = (Inr a, st'') \<and> \<not> has_tag (meta_at st'' a)"
    if "map_of (load_meta_cache st') path = Some a"
  proof -
    from load_meta_hit [OF that, of w] obtain st'' where
      "load_meta w path st' = (Inr a, st'')" "metas st'' = metas st'" by blast
    moreover from this(2) have "meta_at st'' a = meta_at st' a" by (simp add: meta_at_def)
    ultimately show ?thesis using gone by auto
  qed
  from gone changed again update_env_stores_environment show ?thesis by blast
qed

lemma demo_pack_load:
  "load_meta demo_world ''/app/tasks/pack'' demo_state =
     (Inr 0, pack_state [(''tag'', YStr ''repo/img-$0''), (''rm'', YBool True),
                         (''network'', YList [YStr ''a'', YStr ''b''])] [])"
  by (simp add: demo_world_def demo_state_def pack_state_def pack_text_def load_meta_def
      parse_meta_def is_linebreak_def lru_store_def numeral_2_eq_2)

lemma demo_pack_run:
  "task_cmd (Suc 0) demo_world ''/app/tasks/pack'' [''7''] demo_state =
     Some (Inr (), pack_state [(''rm'', YBool True),
                               (''network'', YList [YStr ''a'', YStr ''b''])] [pack_docker])"
  by (simp add: demo_pack_load)
    (simp add: demo_world_def pack_state_def pack_docker_def update_env_def meta_at_def
      dict_get_def dict_get_default_def run_required_flag_def get_flag_def read_env_def
      run_task_def build_invocation_def pop_tag_def dict_remove_def insert_env_vals_def
      subst_step_def str_of_nat.simps base_run_args_def env_flags_def keys_def spawn_def)

lemma demo_pack_rerun:
  "task_cmd (Suc 0) demo_world ''/app/tasks/pack'' [''7'']
     (pack_state [(''rm'', YBool True), (''network'', YList [YStr ''a'', YStr ''b''])]
        [pack_docker]) =
     Some (Inl (KeyError ''tag''),
           pack_state [(''rm'', YBool True), (''network'', YList [YStr ''a'', YStr ''b''])]
             [pack_docker])"
  by (simp add: demo_world_def pack_state_def load_meta_def lru_hit_def update_env_def
      meta_at_def dict_get_def dict_get_default_def run_required_flag_def get_flag_def
      read_env_def run_task_def build_invocation_def)

theorem task_cmd_changes_cached_metadata_witness:
  "task_cmd (Suc 0) demo_world ''/app/tasks/pack'' [''7''] demo_state =
     Some (Inr (), pack_state [(''rm'', YBool True),
                               (''network'', YList [YStr ''a'', YStr ''b''])] [pack_docker]) \<and>
   load_meta demo_world ''/app/tasks/pack'' demo_state =
     (Inr 0, pack_state [(''tag'', YStr ''repo/img-$0''), (''rm'', YBool True),
                         (''network'', YList [YStr ''a'', YStr ''b''])] []) \<and>
   has_tag (meta_at (pack_state [(''tag'', YStr ''repo/img-$0''), (''rm'', YBool True),
                                 (''network'', YList [YStr ''a'', YStr ''b''])] []) 0) \<and>
   \<not> has_tag (meta_at (pack_state [(''rm'', YBool True),
                                   (''network'', YList [YStr ''a'', YStr ''b''])]
                        [pack_docker]) 0) \<and>
   task_cmd (Suc 0) demo_world ''/app/tasks/pack'' [''7'']
     (pack_state [(''rm'', YBool True), (''network'', YList [YStr ''a'', YStr ''b''])]
        [pack_docker]) =
     Some (Inl (KeyError ''tag''),
           pack_state [(''rm'', YBool True), (''network'', YList [YStr ''a'', YStr ''b''])]
             [pack_docker])"
proof -
  have tag: "has_tag (meta_at (pack_state [(''tag'', YStr ''repo/img-$0''), (''rm'', YBool True),
                                 (''network'', YList [YStr ''a'', YStr ''b''])] []) 0)"
    by (simp add: has_tag_def pack_state_def meta_at_def dict_get_def dict_get_default_def)
  from task_cmd_changes_cached_metadata [OF demo_pack_run demo_pack_load tag]
  have "\<not> has_tag (meta_at (pack_state [(''rm'', YBool True),
                                   (''network'', YList [YStr ''a'', YStr ''b''])]
                        [pack_docker]) 0)"
    by blast
  with tag demo_pack_run demo_pack_load demo_pack_rerun show ?thesis by blast
qed

end
